theory Spec2Isabelle
  imports Complex_Main "HOL-Library.Log_Nat"
begin

section \<open>Data model (types.ts)\<close>

text \<open>
  A JavaScript number is modelled by the real number it denotes.  The clip split and
  the contain-fit, whose properties depend on whether results are exact, round every
  arithmetic operation to double precision (section Double-precision arithmetic); the
  other functions take the arithmetic exactly.  Where the source itself tests for a
  non-finite result (\<^verbatim>\<open>Number.isFinite\<close>), the division that can produce it is
  modelled as a partial operation.

  \<^verbatim>\<open>ZoomEvent\<close> and \<^verbatim>\<open>VideoClip\<close> share the fields \<^verbatim>\<open>id\<close>,
  \<^verbatim>\<open>startTime\<close> and \<^verbatim>\<open>duration\<close>; they are the common part of both records.
\<close>

record TimelineItem =
  item_id :: string
  startTime :: real
  duration :: real

record ZoomEvent = TimelineItem +
  x_pct :: real
  y_pct :: real
  scale :: real

datatype TitleTextAlign = AlignLeft | AlignCenter | AlignRight

record TitleStyle =
  fontFamily :: string
  fontSize :: real
  textAlign :: TitleTextAlign
  textColor :: string
  background :: string
  posX :: real
  posY :: real

datatype ClipType = Video | Title

record VideoClip = TimelineItem +
  name :: string
  clip_type :: ClipType
  clip_text :: "string option"
  titleStyle :: "TitleStyle option"
  source :: "string option"
  width :: "real option"
  height :: "real option"

section \<open>Double-precision arithmetic\<close>

text \<open>
  A JavaScript number is an IEEE 754 binary64 value; a finite one is modelled by the
  real number it denotes.  An arithmetic operation yields the exact result rounded to
  the nearest binary64 value, ties to the even significand.  Results of magnitude
  \<open>2^1024\<close> and above (infinities), NaN and the sign of zero are outside the model.
\<close>

text \<open>Rounding a real number to the nearest integer, ties to the even integer.\<close>

definition round_half_even :: "real \<Rightarrow> int" where
  "round_half_even r =
     (let f = \<lfloor>r\<rfloor>; d = r - of_int f
      in if d < 1 / 2 then f else if d > 1 / 2 then f + 1 else if even f then f else f + 1)"

text \<open>
  The binary exponent of a number: \<open>2^(binade x) \<le> |x| < 2^(binade x + 1)\<close> for
  \<open>|x| \<ge> 2^(-1074)\<close>, computed from the bit length of \<open>|x| * 2^1074\<close>.
\<close>

definition binade :: "real \<Rightarrow> int" where
  "binade x = bitlen \<lfloor>\<bar>x\<bar> * 2 ^ 1074\<rfloor> - 1075"

text \<open>
  The exponent of the unit in the last place: 53 significant bits, and the fixed
  spacing \<open>2^(-1074)\<close> of the subnormal range.
\<close>

definition ulp_exponent :: "real \<Rightarrow> int" where
  "ulp_exponent x = max (binade x - 52) (- 1074)"

definition round_double :: "real \<Rightarrow> real" where
  "round_double x =
     (let u = 2 powi (ulp_exponent x) in of_int (round_half_even (x / u)) * u)"

text \<open>The operators \<^verbatim>\<open>+\<close>, \<^verbatim>\<open>-\<close>, \<^verbatim>\<open>*\<close> and \<^verbatim>\<open>/\<close> on numbers.\<close>

definition fl_add :: "real \<Rightarrow> real \<Rightarrow> real" where
  "fl_add a b = round_double (a + b)"

definition fl_sub :: "real \<Rightarrow> real \<Rightarrow> real" where
  "fl_sub a b = round_double (a - b)"

definition fl_mul :: "real \<Rightarrow> real \<Rightarrow> real" where
  "fl_mul a b = round_double (a * b)"

text \<open>The quotient is that of the source for a divisor other than 0.\<close>

definition fl_div :: "real \<Rightarrow> real \<Rightarrow> real" where
  "fl_div a b = round_double (a / b)"

section \<open>Active zoom resolution (EditorCanvas.tsx)\<close>

text \<open>
  \<^verbatim>\<open>z => currentTime >= z.startTime && currentTime <= (z.startTime + z.duration)\<close>
\<close>

definition zoomContains :: "real \<Rightarrow> ZoomEvent \<Rightarrow> bool" where
  "zoomContains currentTime z \<longleftrightarrow>
     currentTime \<ge> startTime z \<and> currentTime \<le> startTime z + duration z"

text \<open>
  \<^verbatim>\<open>const activeZoom = zooms.find(...)\<close>: \<^verbatim>\<open>Array.prototype.find\<close> scans from
  index 0 and yields the first element that satisfies the predicate, \<^verbatim>\<open>undefined\<close>
  when there is none.
\<close>

fun find_js :: "('a \<Rightarrow> bool) \<Rightarrow> 'a list \<Rightarrow> 'a option" where
  "find_js p [] = None"
| "find_js p (v # vs) = (if p v then Some v else find_js p vs)"

definition activeZoom :: "ZoomEvent list \<Rightarrow> real \<Rightarrow> ZoomEvent option" where
  "activeZoom zooms currentTime = find_js (zoomContains currentTime) zooms"

section \<open>Geometry and layout (EditorCanvas.tsx)\<close>

datatype AspectRatio = Auto | Ratio_16_9 | Ratio_9_16 | Ratio_1_1 | Ratio_4_3 | Ratio_21_9

text \<open>The object \<^verbatim>\<open>{ width, height }\<close> returned by \<^verbatim>\<open>getContainerDimensions\<close>.\<close>

record Dimensions =
  dim_width :: real
  dim_height :: real

text \<open>
  \<^verbatim>\<open>activeClip.width || 1920\<close>: the right operand is taken when the optional field is
  missing or is the falsy number 0.
\<close>

definition or_default :: "real option \<Rightarrow> real \<Rightarrow> real" where
  "or_default v d = (case v of None \<Rightarrow> d | Some n \<Rightarrow> if n = 0 then d else n)"

text \<open>\<^verbatim>\<open>const headerH = showWindowFrame ? 32 : 0\<close>\<close>

definition headerH :: "bool \<Rightarrow> real" where
  "headerH showWindowFrame = (if showWindowFrame then 32 else 0)"

definition getContainerDimensions ::
  "VideoClip option \<Rightarrow> bool \<Rightarrow> real \<Rightarrow> AspectRatio \<Rightarrow> Dimensions" where
  "getContainerDimensions activeClip showWindowFrame contentScale ratio =
     (case ratio of
        Auto \<Rightarrow>
          (case activeClip of
             None \<Rightarrow> \<lparr>dim_width = 800, dim_height = 450\<rparr>
           | Some clip \<Rightarrow>
               (let clipW = or_default (width clip) 1920;
                    clipH = or_default (height clip) 1080;
                    contentRatio = (clipH + headerH showWindowFrame) / clipW;
                    targetW = 800;
                    effectiveScale = min contentScale 1;
                    targetH = targetW * (effectiveScale * contentRatio + (1 - effectiveScale))
                in \<lparr>dim_width = targetW, dim_height = targetH\<rparr>))
      | Ratio_16_9 \<Rightarrow> \<lparr>dim_width = 800, dim_height = 450\<rparr>
      | Ratio_9_16 \<Rightarrow> \<lparr>dim_width = 360, dim_height = 640\<rparr>
      | Ratio_1_1 \<Rightarrow> \<lparr>dim_width = 500, dim_height = 500\<rparr>
      | Ratio_4_3 \<Rightarrow> \<lparr>dim_width = 640, dim_height = 480\<rparr>
      | Ratio_21_9 \<Rightarrow> \<lparr>dim_width = 800, dim_height = 340\<rparr>)"

text \<open>The object \<^verbatim>\<open>{ width, height, contentHeight }\<close> returned by \<^verbatim>\<open>getFittedDimensions\<close>.\<close>

record FittedDimensions =
  fit_width :: real
  fit_height :: real
  fit_contentHeight :: real

definition getFittedDimensions ::
  "VideoClip option \<Rightarrow> bool \<Rightarrow> real \<Rightarrow> real \<Rightarrow> FittedDimensions" where
  "getFittedDimensions activeClip showWindowFrame containerWidth containerHeight =
     (case activeClip of
        None \<Rightarrow> \<lparr>fit_width = containerWidth, fit_height = containerHeight,
                 fit_contentHeight = containerHeight\<rparr>
      | Some clip \<Rightarrow>
          (let clipW = or_default (width clip) 1920;
               clipH = or_default (height clip) 1080;
               clipRatio = fl_div clipW clipH;
               w = containerWidth;
               contentH = fl_div w clipRatio;
               h = fl_add contentH (headerH showWindowFrame)
           in if h > fl_add containerHeight 0.5
              then (let h' = containerHeight;
                        contentH' = fl_sub h' (headerH showWindowFrame);
                        w' = fl_mul contentH' clipRatio
                    in \<lparr>fit_width = w', fit_height = h', fit_contentHeight = contentH'\<rparr>)
              else \<lparr>fit_width = w, fit_height = h, fit_contentHeight = contentH\<rparr>))"

section \<open>Camera targets (EditorCanvas.tsx)\<close>

text \<open>The three motion values the two targeting effects write.\<close>

record CameraTarget =
  targetCamX :: real
  targetCamY :: real
  targetScaleMV :: real

text \<open>
  \<^verbatim>\<open>Math.max(-maxOffset, Math.min(maxOffset, idealCam))\<close>, for one axis of the active
  zoom: \<open>pct\<close> is the event coordinate and \<open>extent\<close> the container dimension.
\<close>

definition clampedTarget :: "real \<Rightarrow> real \<Rightarrow> real \<Rightarrow> real" where
  "clampedTarget pct s extent =
     (let focusPx = ((pct - 50) / 100) * extent;
          idealCam = - focusPx * s;
          maxOffset = (extent / 2) * (s - 1)
      in max (- maxOffset) (min maxOffset idealCam))"

definition cameraTarget :: "ZoomEvent option \<Rightarrow> real \<Rightarrow> real \<Rightarrow> real \<Rightarrow> CameraTarget" where
  "cameraTarget activeZ contentScale containerWidth containerHeight =
     (case activeZ of
        Some z \<Rightarrow> \<lparr>targetCamX = clampedTarget (x_pct z) (scale z) containerWidth,
                    targetCamY = clampedTarget (y_pct z) (scale z) containerHeight,
                    targetScaleMV = scale z\<rparr>
      | None \<Rightarrow> \<lparr>targetCamX = 0, targetCamY = 0, targetScaleMV = contentScale\<rparr>)"

text \<open>
  The clamp of the specification, in its words: a value below the box is moved to the
  lower bound, a value above it to the upper bound, any other value is kept.
\<close>

definition clamp_to :: "real \<Rightarrow> real \<Rightarrow> real \<Rightarrow> real" where
  "clamp_to lo hi v = (if v < lo then lo else if v > hi then hi else v)"

section \<open>Editor state (App.tsx)\<close>

datatype DragTarget = ZoomTarget | ClipTarget

datatype DragMode = Move | Resize

text \<open>
  \<^verbatim>\<open>DragState\<close> is a tagged union: a drag of a zoom or clip with its start data, or
  a drag of the playhead.
\<close>

record ItemDrag =
  drag_type :: DragTarget
  drag_id :: string
  mode :: DragMode
  startX :: real
  initialStart :: real
  initialDuration :: real

datatype DragState = DragItem ItemDrag | DragPlayhead

text \<open>The state of a \<^verbatim>\<open>MediaRecorder\<close>.\<close>

datatype RecorderState = Inactive | Recording | Paused

text \<open>
  What the handlers read of the timeline element \<^verbatim>\<open>timelineRef.current\<close>: the left
  edge of its bounding rectangle and its horizontal scroll offset.
\<close>

record TimelineEl =
  rect_left :: real
  scrollLeft :: real

text \<open>
  The part of the component state of \<^verbatim>\<open>App\<close> that the timeline handlers and the
  animation callback read or write.  \<^verbatim>\<open>timelineRef\<close> is \<open>None\<close> while the
  timeline element is not mounted, \<^verbatim>\<open>exportRecorderRef\<close> is \<open>None\<close> while no
  export recorder exists.
\<close>

record AppState =
  zooms :: "ZoomEvent list"
  clips :: "VideoClip list"
  dragState :: "DragState option"
  currentTime :: real
  isPlaying :: bool
  isPlayingRef :: bool
  previousTimeRef :: "real option"
  exportRecorderRef :: "RecorderState option"
  selectedZoomId :: "string option"
  selectedClipId :: "string option"
  timelineScale :: real
  timelineRef :: "TimelineEl option"

definition DEFAULT_DURATION :: real where
  "DEFAULT_DURATION = 15"

text \<open>
  \<^verbatim>\<open>timelineDuration\<close>, derived from clips and zooms.  \<^verbatim>\<open>Number.isFinite(next)\<close>
  holds of every real number, so only the test \<^verbatim>\<open>next > 0\<close> of the guard remains.
\<close>

definition timelineDuration :: "VideoClip list \<Rightarrow> ZoomEvent list \<Rightarrow> real" where
  "timelineDuration cs zs =
     (let clipEnd = foldl (\<lambda>mx c. max mx (startTime c + duration c)) 0 cs;
          zoomEnd = foldl (\<lambda>mx z. max mx (startTime z + duration z)) 0 zs;
          nxt = max DEFAULT_DURATION (max clipEnd zoomEnd)
      in if nxt > 0 then nxt else DEFAULT_DURATION)"

subsection \<open>The animation callback\<close>

text \<open>
  \<^verbatim>\<open>if (exportRecorderRef.current && exportRecorderRef.current.state !== 'inactive')
      exportRecorderRef.current.stop()\<close>: stopping makes the recorder inactive.
\<close>

definition stopExportRecorder :: "RecorderState option \<Rightarrow> RecorderState option" where
  "stopExportRecorder r =
     (case r of
        None \<Rightarrow> None
      | Some rs \<Rightarrow> if rs \<noteq> Inactive then Some Inactive else Some rs)"

text \<open>
  One call of \<^verbatim>\<open>animate(time)\<close>, \<open>time\<close> in milliseconds.  The updater passed to
  \<^verbatim>\<open>setCurrentTime\<close> is applied to the current time of the state.  The request of
  the next animation frame is the caller's part: see \<open>runFrames\<close>.
\<close>

definition animate :: "real \<Rightarrow> AppState \<Rightarrow> AppState" where
  "animate time st =
     (if \<not> isPlayingRef st then st\<lparr>previousTimeRef := None\<rparr>
      else
        (let st' =
           (case previousTimeRef st of
              None \<Rightarrow> st
            | Some previousTime \<Rightarrow>
                (let deltaTime = (time - previousTime) / 1000;
                     nxt = currentTime st + deltaTime
                 in if nxt \<ge> timelineDuration (clips st) (zooms st)
                    then st\<lparr>isPlaying := False,
                            exportRecorderRef := stopExportRecorder (exportRecorderRef st),
                            currentTime := 0\<rparr>
                    else st\<lparr>currentTime := nxt\<rparr>))
         in st'\<lparr>previousTimeRef := Some time\<rparr>))"

text \<open>
  The effect \<^verbatim>\<open>isPlayingRef.current = isPlaying\<close>, run after each render in which
  \<^verbatim>\<open>isPlaying\<close> changed.
\<close>

definition syncPlayingRef :: "AppState \<Rightarrow> AppState" where
  "syncPlayingRef st = st\<lparr>isPlayingRef := isPlaying st\<rparr>"

text \<open>The animation loop over the timestamps of successive frames.\<close>

fun runFrames :: "real list \<Rightarrow> AppState \<Rightarrow> AppState" where
  "runFrames [] st = st"
| "runFrames (time # later) st = runFrames later (syncPlayingRef (animate time st))"

subsection \<open>Pointer handlers of the timeline\<close>

text \<open>
  \<^verbatim>\<open>e.clientX - rect.left + timelineRef.current.scrollLeft - 16\<close>: the pointer position
  in pixels of timeline content.
\<close>

definition contentX :: "TimelineEl \<Rightarrow> real \<Rightarrow> real" where
  "contentX el clientX = clientX - rect_left el + scrollLeft el - 16"

text \<open>
  The function mapped over \<^verbatim>\<open>zooms\<close> or \<^verbatim>\<open>clips\<close> by the mouse-move handler; the
  source has the same body for both lists.
\<close>

definition applyDrag ::
  "ItemDrag \<Rightarrow> real \<Rightarrow> 'a TimelineItem_scheme \<Rightarrow> 'a TimelineItem_scheme" where
  "applyDrag d timeDelta z =
     (if item_id z \<noteq> drag_id d then z
      else if mode d = Move
        then (let newStart = max 0 (initialStart d + timeDelta) in z\<lparr>startTime := newStart\<rparr>)
        else (let newDuration = max 0.5 (initialDuration d + timeDelta)
              in z\<lparr>duration := newDuration\<rparr>))"

text \<open>
  \<^verbatim>\<open>handleMouseMove\<close>.  The listener exists only while \<^verbatim>\<open>dragState\<close> is set.  The
  divisions by \<^verbatim>\<open>timelineScale\<close> are those of the source for a scale other than 0
  (the slider ranges over 40 to 200).
\<close>

definition handleMouseMove :: "real \<Rightarrow> AppState \<Rightarrow> AppState" where
  "handleMouseMove clientX st =
     (case dragState st of
        None \<Rightarrow> st
      | Some ds \<Rightarrow>
          (case timelineRef st of
             None \<Rightarrow> st
           | Some el \<Rightarrow>
               (let trackWidth = timelineDuration (clips st) (zooms st) * timelineScale st;
                    relativeX = contentX el clientX
                in case ds of
                     DragPlayhead \<Rightarrow>
                       (let clampedX = max 0 (min trackWidth relativeX)
                        in st\<lparr>currentTime := clampedX / timelineScale st\<rparr>)
                   | DragItem d \<Rightarrow>
                       (let pixelDelta = relativeX - startX d;
                            timeDelta = pixelDelta / timelineScale st
                        in case drag_type d of
                             ZoomTarget \<Rightarrow> st\<lparr>zooms := map (applyDrag d timeDelta) (zooms st)\<rparr>
                           | ClipTarget \<Rightarrow> st\<lparr>clips := map (applyDrag d timeDelta) (clips st)\<rparr>))))"

text \<open>\<^verbatim>\<open>handleMouseUp\<close>: the listener exists only while \<^verbatim>\<open>dragState\<close> is set.\<close>

definition handleMouseUp :: "AppState \<Rightarrow> AppState" where
  "handleMouseUp st =
     (case dragState st of
        Some DragPlayhead \<Rightarrow> st\<lparr>dragState := None\<rparr>
      | _ \<Rightarrow> st)"

definition handleScrubStart :: "real \<Rightarrow> AppState \<Rightarrow> AppState" where
  "handleScrubStart clientX st =
     (case timelineRef st of
        None \<Rightarrow> st
      | Some el \<Rightarrow>
          (case dragState st of
             Some (DragItem d) \<Rightarrow> st\<lparr>dragState := None\<rparr>
           | _ \<Rightarrow>
               (let trackWidth = timelineDuration (clips st) (zooms st) * timelineScale st;
                    relativeX = contentX el clientX;
                    clampedX = max 0 (min trackWidth relativeX)
                in st\<lparr>currentTime := clampedX / timelineScale st,
                       selectedZoomId := None,
                       selectedClipId := None,
                       dragState := Some DragPlayhead\<rparr>)))"

text \<open>The updater passed to \<^verbatim>\<open>setDragState\<close> by both interaction handlers.\<close>

definition toggleDrag :: "ItemDrag \<Rightarrow> DragState option \<Rightarrow> DragState option" where
  "toggleDrag d prev =
     (case prev of
        Some (DragItem p) \<Rightarrow>
          if drag_type p = drag_type d \<and> drag_id p = drag_id d \<and> mode p = mode d
          then None else Some (DragItem d)
      | _ \<Rightarrow> Some (DragItem d))"

definition onClipInteraction ::
  "real \<Rightarrow> string \<Rightarrow> DragMode \<Rightarrow> real \<Rightarrow> real \<Rightarrow> AppState \<Rightarrow> AppState" where
  "onClipInteraction clientX ident md start dur st =
     (case timelineRef st of
        None \<Rightarrow> st
      | Some el \<Rightarrow>
          st\<lparr>selectedClipId := Some ident,
             selectedZoomId := None,
             dragState := toggleDrag \<lparr>drag_type = ClipTarget, drag_id = ident, mode = md,
                            startX = contentX el clientX, initialStart = start,
                            initialDuration = dur\<rparr> (dragState st)\<rparr>)"

definition onZoomInteraction ::
  "real \<Rightarrow> string \<Rightarrow> DragMode \<Rightarrow> real \<Rightarrow> real \<Rightarrow> AppState \<Rightarrow> AppState" where
  "onZoomInteraction clientX ident md start dur st =
     (case timelineRef st of
        None \<Rightarrow> st
      | Some el \<Rightarrow>
          st\<lparr>selectedZoomId := Some ident,
             selectedClipId := None,
             dragState := toggleDrag \<lparr>drag_type = ZoomTarget, drag_id = ident, mode = md,
                            startX = contentX el clientX, initialStart = start,
                            initialDuration = dur\<rparr> (dragState st)\<rparr>)"

subsection \<open>Splitting a clip\<close>

text \<open>
  \<^verbatim>\<open>Array.prototype.findIndex\<close>: the index of the first element that satisfies the
  predicate, \<open>-1\<close> when there is none.
\<close>

fun findIndex :: "('a \<Rightarrow> bool) \<Rightarrow> 'a list \<Rightarrow> int" where
  "findIndex p [] = - 1"
| "findIndex p (v # vs) =
     (if p v then 0 else (let i = findIndex p vs in if i < 0 then - 1 else i + 1))"

text \<open>
  \<^verbatim>\<open>Array.prototype.splice(start, deleteCount, ...items)\<close> on a copy: a negative
  \<open>start\<close> counts from the end, and both arguments are clamped to the array.
\<close>

definition splice_js :: "int \<Rightarrow> int \<Rightarrow> 'a list \<Rightarrow> 'a list \<Rightarrow> 'a list" where
  "splice_js start deleteCount items xs =
     (let len = int (length xs);
          actualStart = (if start < 0 then max (len + start) 0 else min start len);
          actualDeleteCount = min (max deleteCount 0) (len - actualStart)
      in take (nat actualStart) xs @ items @ drop (nat (actualStart + actualDeleteCount)) xs)"

text \<open>
  \<^verbatim>\<open>handleSplit\<close>.  \<open>newId\<close> is the value of \<^verbatim>\<open>crypto.randomUUID()\<close> for the
  second clip; the literal \<^verbatim>\<open>0.1\<close> is the double nearest to one tenth.
\<close>

definition handleSplit :: "string \<Rightarrow> AppState \<Rightarrow> AppState" where
  "handleSplit newId st =
     (case find_js (\<lambda>c. currentTime st > startTime c
                        \<and> currentTime st < fl_add (startTime c) (duration c)) (clips st) of
        None \<Rightarrow> st
      | Some clipToSplit \<Rightarrow>
          (let firstDuration = fl_sub (currentTime st) (startTime clipToSplit);
               secondDuration = fl_sub (duration clipToSplit) firstDuration
           in if firstDuration < round_double 0.1 \<or> secondDuration < round_double 0.1 then st
              else
                (let clipA = clipToSplit\<lparr>duration := firstDuration\<rparr>;
                     clipB = \<lparr>item_id = newId,
                              startTime = currentTime st,
                              duration = secondDuration,
                              name = name clipToSplit,
                              clip_type = clip_type clipToSplit,
                              clip_text = clip_text clipToSplit,
                              titleStyle = titleStyle clipToSplit,
                              source = source clipToSplit,
                              width = width clipToSplit,
                              height = height clipToSplit\<rparr>;
                     idx = findIndex (\<lambda>c. item_id c = item_id clipToSplit) (clips st)
                 in st\<lparr>clips := splice_js idx 1 [clipA, clipB] (clips st)\<rparr>)))"

subsection \<open>Pointer samples during export capture\<close>

text \<open>The window bounds of \<^verbatim>\<open>getWindowBounds\<close> and the payload of a mouse-position event.\<close>

record Bounds =
  bounds_x :: real
  bounds_y :: real
  bounds_width :: real
  bounds_height :: real

record MousePosition =
  mouse_x :: real
  mouse_y :: real

text \<open>An entry \<^verbatim>\<open>{ x, y, time }\<close> of \<^verbatim>\<open>exportCursorDataRef.current\<close>.\<close>

record CursorSample =
  sample_x :: real
  sample_y :: real
  sample_time :: real

text \<open>
  A quotient of two numbers together with the test \<^verbatim>\<open>Number.isFinite\<close> on it: for a
  divisor 0 JavaScript yields an infinity or NaN, which is not finite (\<open>None\<close>); any
  other quotient is finite.
\<close>

definition finite_quotient :: "real \<Rightarrow> real \<Rightarrow> real option" where
  "finite_quotient a b = (if b = 0 then None else Some (a / b))"

text \<open>
  The listener registered with \<^verbatim>\<open>onMousePosition\<close> in \<^verbatim>\<open>captureEditedTimeline\<close>:
  \<open>now\<close> is the reading of \<^verbatim>\<open>performance.now()\<close> inside the listener, \<open>samples\<close>
  the content of \<^verbatim>\<open>exportCursorDataRef.current\<close>.
\<close>

definition onMousePosition ::
  "Bounds option \<Rightarrow> real \<Rightarrow> real \<Rightarrow> MousePosition \<Rightarrow> CursorSample list
     \<Rightarrow> CursorSample list" where
  "onMousePosition bounds captureStart now pos samples =
     (case bounds of
        None \<Rightarrow> samples
      | Some b \<Rightarrow>
          (let t = (now - captureStart) / 1000
           in case (finite_quotient (mouse_x pos - bounds_x b) (bounds_width b),
                    finite_quotient (mouse_y pos - bounds_y b) (bounds_height b)) of
                (Some nx, Some ny) \<Rightarrow>
                  samples @ [\<lparr>sample_x = max 0 (min 1 nx),
                              sample_y = max 0 (min 1 ny),
                              sample_time = t\<rparr>]
              | _ \<Rightarrow> samples))"

subsection \<open>Initial state\<close>

text \<open>
  The initial values of the state hooks and refs of \<^verbatim>\<open>App\<close>: one demo clip of
  \<^verbatim>\<open>DEFAULT_DURATION\<close> seconds, no zooms, no drag, a timeline scale of 80 pixels per
  second.
\<close>

definition initialState :: AppState where
  "initialState =
     \<lparr>zooms = [],
      clips = [\<lparr>item_id = ''1'', startTime = 0, duration = DEFAULT_DURATION,
                name = ''Demo Project'', clip_type = Video, clip_text = None,
                titleStyle = None, source = None, width = None, height = None\<rparr>],
      dragState = None,
      currentTime = 0,
      isPlaying = False,
      isPlayingRef = False,
      previousTimeRef = None,
      exportRecorderRef = None,
      selectedZoomId = None,
      selectedClipId = None,
      timelineScale = 80,
      timelineRef = None\<rparr>"

text \<open>
  An example state: the timeline element is mounted at the left edge of the window and
  not scrolled, and the zoom of \<^verbatim>\<open>addZoom\<close> (3 seconds, centred, scale 1.5) was
  added at 2 seconds.
\<close>

definition zoomExampleState :: AppState where
  "zoomExampleState =
     initialState\<lparr>timelineRef := Some \<lparr>rect_left = 0, scrollLeft = 0\<rparr>,
                   zooms := [\<lparr>item_id = ''z1'', startTime = 2, duration = 3,
                              x_pct = 50, y_pct = 50, scale = 1.5\<rparr>]\<rparr>"

section \<open>Properties\<close>

subsection \<open>Rounding\<close>

lemma round_half_even_error: "\<bar>of_int (round_half_even r) - r\<bar> \<le> 1 / 2"
  unfolding round_half_even_def Let_def by (auto simp add: abs_if) linarith+

lemma round_double_error: "\<bar>round_double x - x\<bar> \<le> 2 powi (ulp_exponent x) / 2"
proof -
  define u :: real where "u = 2 powi (ulp_exponent x)"
  have u: "0 < u" by (simp add: u_def)
  have "round_double x - x = (of_int (round_half_even (x / u)) - x / u) * u"
    using u by (simp add: round_double_def Let_def u_def [symmetric] algebra_simps)
  then have "\<bar>round_double x - x\<bar> = \<bar>of_int (round_half_even (x / u)) - x / u\<bar> * u"
    using u by (simp add: abs_mult)
  also have "\<dots> \<le> (1 / 2) * u"
    using round_half_even_error [of "x / u"] u by (intro mult_right_mono) simp_all
  finally show ?thesis by (simp add: u_def)
qed

lemma binade_eq:
  assumes lo: "2 powi j \<le> \<bar>x\<bar>" and hi: "\<bar>x\<bar> < 2 powi (j + 1)" and j: "- 1074 \<le> j"
  shows "binade x = j"
proof -
  define K :: nat where "K = 1074"
  define i :: nat where "i = nat (j + int K)"
  define n :: int where "n = \<lfloor>\<bar>x\<bar> * 2 ^ K\<rfloor>"
  have b: "binade x = bitlen n - (int K + 1)"
    by (simp add: binade_def n_def K_def)
  have ji: "j = int i - int K" using j by (simp add: i_def K_def)
  have p: "(2::real) powi j = 2 ^ i / 2 ^ K"
    unfolding ji by (simp add: power_int_diff)
  have p1: "(2::real) powi (j + 1) = 2 ^ (i + 1) / 2 ^ K"
  proof -
    have "(2::real) powi (j + 1) = 2 powi j * 2 powi 1"
      by (rule power_int_add) simp
    then show ?thesis by (simp add: p)
  qed
  have "(2::real) ^ i \<le> \<bar>x\<bar> * 2 ^ K"
    using lo unfolding p by (simp add: field_simps)
  then have "real_of_int (2 ^ i) \<le> \<bar>x\<bar> * 2 ^ K" by simp
  then have lo': "2 ^ i \<le> n" unfolding n_def by (simp only: le_floor_iff)
  have "\<bar>x\<bar> * 2 ^ K < (2::real) ^ (i + 1)"
    using hi unfolding p1 by (simp add: field_simps)
  then have "\<bar>x\<bar> * 2 ^ K < real_of_int (2 ^ (i + 1))" by simp
  then have hi': "n < 2 ^ (i + 1)" unfolding n_def by (simp only: floor_less_iff)
  have n1: "nat (int i + 1) = i + 1" by arith
  have "bitlen n \<le> int i + 1"
    unfolding bitlen_le_iff_power n1 using hi' by simp
  moreover have "int i + 1 \<le> bitlen n"
    unfolding bitlen_ge_iff_power n1 using lo' by simp
  ultimately have "bitlen n = int i + 1" by simp
  with b ji show ?thesis by simp
qed

lemma round_double_normal:
  assumes "2 powi j \<le> \<bar>x\<bar>" and "\<bar>x\<bar> < 2 powi (j + 1)" and "- 1022 \<le> j"
  shows "round_double x
           = of_int (round_half_even (x / 2 powi (j - 52))) * 2 powi (j - 52)"
proof -
  have "binade x = j" using assms by (intro binade_eq) simp_all
  then have "ulp_exponent x = j - 52" using assms(3) by (simp add: ulp_exponent_def)
  then show ?thesis by (simp add: round_double_def Let_def)
qed

subsection \<open>Claims\<close>

lemma find_js_None: "find_js p vs = None \<longleftrightarrow> (\<forall>v \<in> set vs. \<not> p v)"
  by (induction vs) auto

lemma find_js_Some:
  "find_js p vs = Some v \<longleftrightarrow>
     (\<exists>i < length vs. vs ! i = v \<and> p v \<and> (\<forall>j < i. \<not> p (vs ! j)))"
proof (induction vs)
  case Nil
  show ?case by simp
next
  case (Cons a as)
  show ?case
  proof (cases "p a")
    case True
    have "(\<exists>i < length (a # as). (a # as) ! i = v \<and> p v \<and> (\<forall>j < i. \<not> p ((a # as) ! j)))
          \<longleftrightarrow> a = v"
    proof
      assume "\<exists>i < length (a # as). (a # as) ! i = v \<and> p v \<and> (\<forall>j < i. \<not> p ((a # as) ! j))"
      then obtain i where i: "(a # as) ! i = v" "\<forall>j < i. \<not> p ((a # as) ! j)" by blast
      have "i = 0"
      proof (rule ccontr)
        assume "i \<noteq> 0"
        then have "0 < i" by simp
        with i(2) have "\<not> p ((a # as) ! 0)" by blast
        with True show False by simp
      qed
      with i(1) show "a = v" by simp
    next
      assume "a = v"
      with True have "0 < length (a # as) \<and> (a # as) ! 0 = v \<and> p v
                      \<and> (\<forall>j < 0. \<not> p ((a # as) ! j))" by simp
      then show "\<exists>i < length (a # as). (a # as) ! i = v \<and> p v
                      \<and> (\<forall>j < i. \<not> p ((a # as) ! j))" by blast
    qed
    with True show ?thesis by simp
  next
    case False
    have "(\<exists>i < length (a # as). (a # as) ! i = v \<and> p v \<and> (\<forall>j < i. \<not> p ((a # as) ! j)))
          \<longleftrightarrow> (\<exists>i < length as. as ! i = v \<and> p v \<and> (\<forall>j < i. \<not> p (as ! j)))"
      (is "?L \<longleftrightarrow> ?R")
    proof
      assume ?L
      then obtain i where i: "i < length (a # as)" "(a # as) ! i = v" "p v"
        "\<forall>j < i. \<not> p ((a # as) ! j)" by blast
      from i(2,3) False have "i \<noteq> 0" by (cases i) auto
      then obtain k where k: "i = Suc k" by (cases i) auto
      have "\<forall>j < k. \<not> p (as ! j)"
      proof (intro allI impI)
        fix j assume "j < k"
        then have "Suc j < i" using k by simp
        with i(4) have "\<not> p ((a # as) ! Suc j)" by blast
        then show "\<not> p (as ! j)" by simp
      qed
      with i k have "k < length as \<and> as ! k = v \<and> p v \<and> (\<forall>j < k. \<not> p (as ! j))" by simp
      then show ?R by blast
    next
      assume ?R
      then obtain k where k: "k < length as" "as ! k = v" "p v" "\<forall>j < k. \<not> p (as ! j)"
        by blast
      have "\<forall>j < Suc k. \<not> p ((a # as) ! j)"
      proof (intro allI impI)
        fix j assume "j < Suc k"
        then show "\<not> p ((a # as) ! j)" using False k(4) by (cases j) auto
      qed
      with k have "Suc k < length (a # as) \<and> (a # as) ! Suc k = v \<and> p v
                   \<and> (\<forall>j < Suc k. \<not> p ((a # as) ! j))" by simp
      then show ?L by blast
    qed
    with False Cons.IH show ?thesis by simp
  qed
qed

text \<open>
  C1.  For every list of zoom events and every playback time, the active zoom is the
  first event in list order whose closed interval \<open>[startTime, startTime + duration]\<close>
  contains the time: it is reported exactly when it contains the time and no event
  before it in the list does, and nothing is reported exactly when no event contains
  the time.  The result is a single optional event, so at most one zoom is active at
  any instant, also when events overlap.
\<close>

theorem activeZoom_first_containing:
  "(activeZoom zs t = Some z \<longleftrightarrow>
      (\<exists>i < length zs. zs ! i = z
         \<and> (t \<ge> startTime z \<and> t \<le> startTime z + duration z)
         \<and> (\<forall>j < i. \<not> (t \<ge> startTime (zs ! j)
                           \<and> t \<le> startTime (zs ! j) + duration (zs ! j)))))
   \<and> (activeZoom zs t = None \<longleftrightarrow>
      (\<forall>z' \<in> set zs. \<not> (t \<ge> startTime z' \<and> t \<le> startTime z' + duration z')))
   \<and> (activeZoom zs t = Some z \<and> activeZoom zs t = Some z' \<longrightarrow> z = z')"
proof (intro conjI)
  show "activeZoom zs t = Some z \<longleftrightarrow>
      (\<exists>i < length zs. zs ! i = z
         \<and> (t \<ge> startTime z \<and> t \<le> startTime z + duration z)
         \<and> (\<forall>j < i. \<not> (t \<ge> startTime (zs ! j)
                           \<and> t \<le> startTime (zs ! j) + duration (zs ! j))))"
    unfolding activeZoom_def find_js_Some zoomContains_def ..
  show "activeZoom zs t = None \<longleftrightarrow>
      (\<forall>z' \<in> set zs. \<not> (t \<ge> startTime z' \<and> t \<le> startTime z' + duration z'))"
    unfolding activeZoom_def find_js_None zoomContains_def ..
  show "activeZoom zs t = Some z \<and> activeZoom zs t = Some z' \<longrightarrow> z = z'"
    by auto
qed

theorem activeZoom_first_containing_witness:
  "activeZoom
     [\<lparr>item_id = ''a'', startTime = 0, duration = 5, x_pct = 50, y_pct = 50, scale = 2\<rparr>,
      \<lparr>item_id = ''b'', startTime = 2, duration = 6, x_pct = 10, y_pct = 90, scale = 3\<rparr>] 3
   = Some \<lparr>item_id = ''a'', startTime = 0, duration = 5, x_pct = 50, y_pct = 50, scale = 2\<rparr>
   \<and> activeZoom
     [\<lparr>item_id = ''a'', startTime = 0, duration = 5, x_pct = 50, y_pct = 50, scale = 2\<rparr>,
      \<lparr>item_id = ''b'', startTime = 2, duration = 6, x_pct = 10, y_pct = 90, scale = 3\<rparr>] 9
   = None"
  using activeZoom_first_containing
    [of "[\<lparr>item_id = ''a'', startTime = 0, duration = 5, x_pct = 50, y_pct = 50, scale = 2\<rparr>,
          \<lparr>item_id = ''b'', startTime = 2, duration = 6, x_pct = 10, y_pct = 90, scale = 3\<rparr>]"
        3
        "\<lparr>item_id = ''a'', startTime = 0, duration = 5, x_pct = 50, y_pct = 50, scale = 2\<rparr>"]
  by (simp add: activeZoom_def zoomContains_def)

lemma max_min_clamp_to:
  fixes m v :: real
  assumes "0 \<le> m"
  shows "max (- m) (min m v) = clamp_to (- m) m v"
  using assms by (auto simp add: clamp_to_def max_def min_def)

lemma max_min_abs:
  fixes m v :: real
  assumes "0 \<le> m"
  shows "\<bar>max (- m) (min m v)\<bar> \<le> m"
  using assms by (auto simp add: max_def min_def abs_if)

lemma clampedTarget_eq_clamp_to:
  assumes "1 \<le> s" "0 \<le> W"
  shows "clampedTarget p s W
           = clamp_to (- ((W / 2) * (s - 1))) ((W / 2) * (s - 1)) (- (((p - 50) / 100) * W) * s)"
proof -
  have "0 \<le> (W / 2) * (s - 1)" using assms by simp
  from max_min_clamp_to [OF this] show ?thesis
    unfolding clampedTarget_def Let_def .
qed

lemma clampedTarget_abs:
  assumes "1 \<le> s" "0 \<le> W"
  shows "\<bar>clampedTarget p s W\<bar> \<le> (W / 2) * (s - 1)"
proof -
  have "0 \<le> (W / 2) * (s - 1)" using assms by simp
  from max_min_abs [OF this] show ?thesis
    unfolding clampedTarget_def Let_def .
qed

text \<open>
  C2.  For an active zoom event with scale \<open>s \<ge> 1\<close> in a container of dimensions
  \<open>W\<close>, \<open>H\<close> (not negative), the camera target translation is the clamp of the
  ideal translation \<open>(-((x-50)/100*W)*s, -((y-50)/100*H)*s)\<close> to the box
  \<open>[-(W/2)*(s-1), (W/2)*(s-1)] \<times> [-(H/2)*(s-1), (H/2)*(s-1)]\<close>, the target scale is
  the scale of the event, and each axis of the translation is at most
  \<open>(dimension/2)*(s-1)\<close> in absolute value; this holds for all event coordinates, in
  particular for those in \<open>[0,100]\<close>.  When no zoom is active the target is the
  translation \<open>(0,0)\<close> with scale \<open>contentScale\<close>.
\<close>

theorem cameraTarget_clamped:
  "(1 \<le> scale z \<and> 0 \<le> W \<and> 0 \<le> H \<longrightarrow>
      cameraTarget (Some z) contentScale W H =
        \<lparr>targetCamX = clamp_to (- ((W / 2) * (scale z - 1))) ((W / 2) * (scale z - 1))
                         (- (((x_pct z - 50) / 100) * W) * scale z),
         targetCamY = clamp_to (- ((H / 2) * (scale z - 1))) ((H / 2) * (scale z - 1))
                         (- (((y_pct z - 50) / 100) * H) * scale z),
         targetScaleMV = scale z\<rparr>
      \<and> \<bar>targetCamX (cameraTarget (Some z) contentScale W H)\<bar> \<le> (W / 2) * (scale z - 1)
      \<and> \<bar>targetCamY (cameraTarget (Some z) contentScale W H)\<bar> \<le> (H / 2) * (scale z - 1))
   \<and> cameraTarget None contentScale W H
        = \<lparr>targetCamX = 0, targetCamY = 0, targetScaleMV = contentScale\<rparr>"
  using clampedTarget_eq_clamp_to [of "scale z" W "x_pct z"]
        clampedTarget_eq_clamp_to [of "scale z" H "y_pct z"]
        clampedTarget_abs [of "scale z" W "x_pct z"]
        clampedTarget_abs [of "scale z" H "y_pct z"]
  by (simp add: cameraTarget_def)

theorem cameraTarget_clamped_witness:
  "(1::real) \<le> 2 \<and> (0::real) \<le> 800 \<and> (0::real) \<le> 450
   \<and> cameraTarget (Some \<lparr>item_id = ''a'', startTime = 2, duration = 3,
                         x_pct = 100, y_pct = 20, scale = 2\<rparr>) 0.95 800 450
     = \<lparr>targetCamX = - 400, targetCamY = 225, targetScaleMV = 2\<rparr>"
  using cameraTarget_clamped [of "\<lparr>item_id = ''a'', startTime = 2, duration = 3,
                         x_pct = 100, y_pct = 20, scale = 2\<rparr>" 800 450 "0.95"]
  by (simp add: clamp_to_def)

text \<open>
  C7.  For the Auto aspect policy with an active clip the container has base width 800
  and height \<open>800 * (s * R' + (1 - s))\<close>, where the header height is 32 when the window
  frame is shown and 0 otherwise, \<open>R' = (contentHeight + header) / contentWidth\<close> and
  \<open>s = min contentScale 1\<close>; the content size is that of the clip, 1920 by 1080 where the
  clip has none, so the content width is never 0.  With \<open>contentScale = 1\<close> and no
  header the height is \<open>800 * R\<close> for the native ratio \<open>R\<close> of height to width, and
  with \<open>contentScale = 0\<close> it is 800, a square frame.
\<close>

theorem getContainerDimensions_auto:
  "getContainerDimensions (Some clip) showWindowFrame contentScale Auto =
     \<lparr>dim_width = 800,
      dim_height = 800 * (min contentScale 1
                           * ((or_default (height clip) 1080 + (if showWindowFrame then 32 else 0))
                                / or_default (width clip) 1920)
                          + (1 - min contentScale 1))\<rparr>
   \<and> dim_height (getContainerDimensions (Some clip) False 1 Auto)
       = 800 * (or_default (height clip) 1080 / or_default (width clip) 1920)
   \<and> dim_height (getContainerDimensions (Some clip) showWindowFrame 0 Auto) = 800
   \<and> or_default (width clip) 1920 \<noteq> 0"
  by (simp add: getContainerDimensions_def headerH_def or_default_def Let_def split: option.split)

theorem getContainerDimensions_auto_witness:
  "getContainerDimensions (Some \<lparr>item_id = ''1'', startTime = 0, duration = 15, name = ''Demo'',
          clip_type = Video, clip_text = None, titleStyle = None, source = None,
          width = Some 1600, height = Some 868\<rparr>) True 0.5 Auto
     = \<lparr>dim_width = 800, dim_height = 625\<rparr>"
  using getContainerDimensions_auto [of "\<lparr>item_id = ''1'', startTime = 0, duration = 15,
          name = ''Demo'', clip_type = Video, clip_text = None, titleStyle = None, source = None,
          width = Some 1600, height = Some 868\<rparr>" True "0.5"]
  by (simp add: or_default_def)

text \<open>
  C8, as stated, fails twice.  The refit by height is taken only when the width-fitted
  total height exceeds the container height by more than 0.5: a clip of 1920 by 1081
  pixels in the 16:9 container (800 by 450) without window frame is fitted by width to
  a total height of about 450.4167, which exceeds the container height 450.  And the
  aspect ratio is kept only up to rounding: a clip of the default size 1920 by 1080 in
  the 21:9 container (800 by 340) without window frame is refitted by height to the
  content height 340 and the width 604.4444444444445 (the double
  \<open>5316749560090169 / 2^43\<close>), and \<open>width * 1080\<close> is not \<open>340 * 1920\<close>.
\<close>

theorem getFittedDimensions_height_counterexample:
  "\<not> fit_height (getFittedDimensions
         (Some \<lparr>item_id = ''1'', startTime = 0, duration = 15, name = ''Demo'',
                 clip_type = Video, clip_text = None, titleStyle = None, source = None,
                 width = Some 1920, height = Some 1081\<rparr>)
         False
         (dim_width (getContainerDimensions None False 0.95 Ratio_16_9))
         (dim_height (getContainerDimensions None False 0.95 Ratio_16_9)))
      \<le> dim_height (getContainerDimensions None False 0.95 Ratio_16_9)
   \<and> getFittedDimensions
         (Some \<lparr>item_id = ''1'', startTime = 0, duration = 15, name = ''Demo'',
                 clip_type = Video, clip_text = None, titleStyle = None, source = None,
                 width = None, height = None\<rparr>)
         False
         (dim_width (getContainerDimensions None False 0.95 Ratio_21_9))
         (dim_height (getContainerDimensions None False 0.95 Ratio_21_9))
       = \<lparr>fit_width = 5316749560090169 / 8796093022208, fit_height = 340,
          fit_contentHeight = 340\<rparr>
   \<and> (5316749560090169 / 8796093022208) * 1080 \<noteq> (340 :: real) * 1920"
proof (intro conjI)
  have r: "fl_div 1920 1081 = 7998992862674701 / 4503599627370496"
    unfolding fl_div_def
    by (subst round_double_normal [of 0]) (simp_all add: round_half_even_def Let_def)
  have c: "fl_div 800 (7998992862674701 / 4503599627370496)
             = 7923813797505707 / 17592186044416"
    unfolding fl_div_def
    by (subst round_double_normal [of 8]) (simp_all add: round_half_even_def Let_def)
  have h: "fl_add (7923813797505707 / 17592186044416) 0 = 7923813797505707 / 17592186044416"
    unfolding fl_add_def
    by (subst round_double_normal [of 8]) (simp_all add: round_half_even_def Let_def)
  have t: "fl_add 450 (1 / 2) = 901 / 2"
    unfolding fl_add_def
    by (subst round_double_normal [of 8]) (simp_all add: round_half_even_def Let_def)
  show "\<not> fit_height (getFittedDimensions
         (Some \<lparr>item_id = ''1'', startTime = 0, duration = 15, name = ''Demo'',
                 clip_type = Video, clip_text = None, titleStyle = None, source = None,
                 width = Some 1920, height = Some 1081\<rparr>)
         False
         (dim_width (getContainerDimensions None False 0.95 Ratio_16_9))
         (dim_height (getContainerDimensions None False 0.95 Ratio_16_9)))
      \<le> dim_height (getContainerDimensions None False 0.95 Ratio_16_9)"
    by (simp add: getFittedDimensions_def getContainerDimensions_def headerH_def or_default_def
          Let_def r c h t)
next
  have r: "fl_div 1920 1080 = 2001599834386887 / 1125899906842624"
    unfolding fl_div_def
    by (subst round_double_normal [of 0]) (simp_all add: round_half_even_def Let_def)
  have c: "fl_div 800 (2001599834386887 / 1125899906842624) = 450"
    unfolding fl_div_def
    by (subst round_double_normal [of 8]) (simp_all add: round_half_even_def Let_def)
  have h: "fl_add 450 0 = 450"
    unfolding fl_add_def
    by (subst round_double_normal [of 8]) (simp_all add: round_half_even_def Let_def)
  have t: "fl_add 340 (1 / 2) = 681 / 2"
    unfolding fl_add_def
    by (subst round_double_normal [of 8]) (simp_all add: round_half_even_def Let_def)
  have s: "fl_sub 340 0 = 340"
    unfolding fl_sub_def
    by (subst round_double_normal [of 8]) (simp_all add: round_half_even_def Let_def)
  have m: "fl_mul 340 (2001599834386887 / 1125899906842624)
             = 5316749560090169 / 8796093022208"
    unfolding fl_mul_def
    by (subst round_double_normal [of 9]) (simp_all add: round_half_even_def Let_def)
  show "getFittedDimensions
         (Some \<lparr>item_id = ''1'', startTime = 0, duration = 15, name = ''Demo'',
                 clip_type = Video, clip_text = None, titleStyle = None, source = None,
                 width = None, height = None\<rparr>)
         False
         (dim_width (getContainerDimensions None False 0.95 Ratio_21_9))
         (dim_height (getContainerDimensions None False 0.95 Ratio_21_9))
       = \<lparr>fit_width = 5316749560090169 / 8796093022208, fit_height = 340,
          fit_contentHeight = 340\<rparr>"
    by (simp add: getFittedDimensions_def getContainerDimensions_def headerH_def or_default_def
          Let_def r c h t s m)
next
  show "(5316749560090169 / 8796093022208) * 1080 \<noteq> (340 :: real) * 1920" by simp
qed

text \<open>
  C8, amended.  For a clip whose aspect ratio \<open>clipWidth / clipHeight\<close>, rounded to
  double precision, is not 0, the contain-fit first fits by width (width =
  containerWidth, contentHeight = width / nativeAspect, total height = contentHeight +
  headerHeight, each operation rounded) and keeps that fit unless the total height
  exceeds \<open>containerHeight + 0.5\<close>; in that case it refits by height (total height =
  containerHeight, contentHeight = containerHeight - headerHeight, width =
  contentHeight * nativeAspect).  The native aspect ratio is kept up to rounding: the
  ratio used, the content height of the width fit and the width of the height fit each
  differ from the exact quotient or product by at most half a unit in the last place,
  and \<open>width * clipHeight = contentHeight * clipWidth\<close> holds exactly where the ratio
  and the fitted dimension are computed without rounding error.  The returned total
  height is the container height or at most \<open>containerHeight + 0.5\<close>.
\<close>

theorem getFittedDimensions_contain:
  "(let clipW = or_default (width clip) 1920;
        clipH = or_default (height clip) 1080;
        hdr = (if showWindowFrame then 32 else 0);
        ratio = fl_div clipW clipH;
        f = getFittedDimensions (Some clip) showWindowFrame containerWidth containerHeight
    in ratio \<noteq> 0 \<longrightarrow>
       (fl_add (fl_div containerWidth ratio) hdr \<le> fl_add containerHeight 0.5 \<longrightarrow>
          fit_width f = containerWidth
          \<and> fit_contentHeight f = fl_div containerWidth ratio
          \<and> fit_height f = fl_add (fl_div containerWidth ratio) hdr
          \<and> \<bar>fit_contentHeight f - fit_width f / ratio\<bar>
               \<le> 2 powi (ulp_exponent (containerWidth / ratio)) / 2
          \<and> (ratio = clipW / clipH \<and> fl_div containerWidth ratio = containerWidth / ratio
               \<longrightarrow> fit_width f * clipH = fit_contentHeight f * clipW))
     \<and> (fl_add (fl_div containerWidth ratio) hdr > fl_add containerHeight 0.5 \<longrightarrow>
          fit_height f = containerHeight
          \<and> fit_contentHeight f = fl_sub containerHeight hdr
          \<and> fit_width f = fl_mul (fl_sub containerHeight hdr) ratio
          \<and> \<bar>fit_width f - fit_contentHeight f * ratio\<bar>
               \<le> 2 powi (ulp_exponent (fl_sub containerHeight hdr * ratio)) / 2
          \<and> (ratio = clipW / clipH
               \<and> fl_mul (fl_sub containerHeight hdr) ratio = fl_sub containerHeight hdr * ratio
               \<longrightarrow> fit_width f * clipH = fit_contentHeight f * clipW))
     \<and> \<bar>ratio - clipW / clipH\<bar> \<le> 2 powi (ulp_exponent (clipW / clipH)) / 2
     \<and> (fit_height f = containerHeight \<or> fit_height f \<le> fl_add containerHeight 0.5))"
proof -
  define clipW where "clipW = or_default (width clip) 1920"
  define clipH where "clipH = or_default (height clip) 1080"
  define hdr :: real where "hdr = (if showWindowFrame then 32 else 0)"
  define ratio where "ratio = fl_div clipW clipH"
  define f where
    "f = getFittedDimensions (Some clip) showWindowFrame containerWidth containerHeight"
  have nz: "clipW \<noteq> 0" "clipH \<noteq> 0"
    by (simp_all add: clipW_def clipH_def or_default_def split: option.split)
  have hd: "headerH showWindowFrame = hdr" by (simp add: headerH_def hdr_def)
  have fit: "f = (if fl_add (fl_div containerWidth ratio) hdr > fl_add containerHeight 0.5
                  then \<lparr>fit_width = fl_mul (fl_sub containerHeight hdr) ratio,
                        fit_height = containerHeight,
                        fit_contentHeight = fl_sub containerHeight hdr\<rparr>
                  else \<lparr>fit_width = containerWidth,
                        fit_height = fl_add (fl_div containerWidth ratio) hdr,
                        fit_contentHeight = fl_div containerWidth ratio\<rparr>)"
    unfolding f_def getFittedDimensions_def
    by (simp add: Let_def hd clipW_def [symmetric] clipH_def [symmetric] ratio_def [symmetric])
  have e1: "\<bar>fl_div containerWidth ratio - containerWidth / ratio\<bar>
              \<le> 2 powi (ulp_exponent (containerWidth / ratio)) / 2"
    unfolding fl_div_def by (rule round_double_error)
  have e2: "\<bar>fl_mul (fl_sub containerHeight hdr) ratio - fl_sub containerHeight hdr * ratio\<bar>
              \<le> 2 powi (ulp_exponent (fl_sub containerHeight hdr * ratio)) / 2"
    unfolding fl_mul_def by (rule round_double_error)
  have e3: "\<bar>ratio - clipW / clipH\<bar> \<le> 2 powi (ulp_exponent (clipW / clipH)) / 2"
    unfolding ratio_def fl_div_def by (rule round_double_error)
  have x1: "containerWidth * clipH = (containerWidth / ratio) * clipW"
    if "ratio = clipW / clipH"
  proof -
    have "containerWidth / (clipW / clipH) * clipW = containerWidth * clipH"
      using nz by simp
    then show ?thesis by (simp add: that)
  qed
  have x2: "(fl_sub containerHeight hdr * ratio) * clipH = fl_sub containerHeight hdr * clipW"
    if "ratio = clipW / clipH"
    using that nz by (simp add: field_simps)
  have "ratio \<noteq> 0 \<longrightarrow>
       (fl_add (fl_div containerWidth ratio) hdr \<le> fl_add containerHeight 0.5 \<longrightarrow>
          fit_width f = containerWidth
          \<and> fit_contentHeight f = fl_div containerWidth ratio
          \<and> fit_height f = fl_add (fl_div containerWidth ratio) hdr
          \<and> \<bar>fit_contentHeight f - fit_width f / ratio\<bar>
               \<le> 2 powi (ulp_exponent (containerWidth / ratio)) / 2
          \<and> (ratio = clipW / clipH \<and> fl_div containerWidth ratio = containerWidth / ratio
               \<longrightarrow> fit_width f * clipH = fit_contentHeight f * clipW))
     \<and> (fl_add (fl_div containerWidth ratio) hdr > fl_add containerHeight 0.5 \<longrightarrow>
          fit_height f = containerHeight
          \<and> fit_contentHeight f = fl_sub containerHeight hdr
          \<and> fit_width f = fl_mul (fl_sub containerHeight hdr) ratio
          \<and> \<bar>fit_width f - fit_contentHeight f * ratio\<bar>
               \<le> 2 powi (ulp_exponent (fl_sub containerHeight hdr * ratio)) / 2
          \<and> (ratio = clipW / clipH
               \<and> fl_mul (fl_sub containerHeight hdr) ratio = fl_sub containerHeight hdr * ratio
               \<longrightarrow> fit_width f * clipH = fit_contentHeight f * clipW))
     \<and> \<bar>ratio - clipW / clipH\<bar> \<le> 2 powi (ulp_exponent (clipW / clipH)) / 2
     \<and> (fit_height f = containerHeight \<or> fit_height f \<le> fl_add containerHeight 0.5)"
  proof (intro impI conjI)
    assume rz: "ratio \<noteq> 0"
    {
      assume w: "fl_add (fl_div containerWidth ratio) hdr \<le> fl_add containerHeight 0.5"
      then have fw: "f = \<lparr>fit_width = containerWidth,
                        fit_height = fl_add (fl_div containerWidth ratio) hdr,
                        fit_contentHeight = fl_div containerWidth ratio\<rparr>"
        by (simp add: fit)
      show "fit_width f = containerWidth" by (simp add: fw)
      show "fit_contentHeight f = fl_div containerWidth ratio" by (simp add: fw)
      show "fit_height f = fl_add (fl_div containerWidth ratio) hdr" by (simp add: fw)
      show "\<bar>fit_contentHeight f - fit_width f / ratio\<bar>
               \<le> 2 powi (ulp_exponent (containerWidth / ratio)) / 2"
        using e1 by (simp add: fw)
      show "fit_width f * clipH = fit_contentHeight f * clipW"
        if ex: "ratio = clipW / clipH \<and> fl_div containerWidth ratio = containerWidth / ratio"
      proof -
        from ex have a: "ratio = clipW / clipH"
          and b: "fl_div containerWidth ratio = containerWidth / ratio" by blast+
        have "fit_width f * clipH = containerWidth * clipH" by (simp only: fw FittedDimensions.simps)
        also have "\<dots> = (containerWidth / ratio) * clipW" by (rule x1 [OF a])
        also have "\<dots> = fit_contentHeight f * clipW"
          by (simp only: fw FittedDimensions.simps b)
        finally show ?thesis .
      qed
    }
    {
      assume w: "fl_add (fl_div containerWidth ratio) hdr > fl_add containerHeight 0.5"
      then have fh: "f = \<lparr>fit_width = fl_mul (fl_sub containerHeight hdr) ratio,
                        fit_height = containerHeight,
                        fit_contentHeight = fl_sub containerHeight hdr\<rparr>"
        by (simp add: fit)
      show "fit_height f = containerHeight" by (simp add: fh)
      show "fit_contentHeight f = fl_sub containerHeight hdr" by (simp add: fh)
      show "fit_width f = fl_mul (fl_sub containerHeight hdr) ratio" by (simp add: fh)
      show "\<bar>fit_width f - fit_contentHeight f * ratio\<bar>
               \<le> 2 powi (ulp_exponent (fl_sub containerHeight hdr * ratio)) / 2"
        using e2 by (simp add: fh)
      show "fit_width f * clipH = fit_contentHeight f * clipW"
        if ex: "ratio = clipW / clipH
             \<and> fl_mul (fl_sub containerHeight hdr) ratio = fl_sub containerHeight hdr * ratio"
      proof -
        from ex have a: "ratio = clipW / clipH"
          and b: "fl_mul (fl_sub containerHeight hdr) ratio = fl_sub containerHeight hdr * ratio"
          by blast+
        have "fit_width f * clipH = (fl_sub containerHeight hdr * ratio) * clipH"
          by (simp only: fh FittedDimensions.simps b)
        also have "\<dots> = fl_sub containerHeight hdr * clipW" by (rule x2 [OF a])
        also have "\<dots> = fit_contentHeight f * clipW"
          by (simp only: fh FittedDimensions.simps)
        finally show ?thesis .
      qed
    }
    show "\<bar>ratio - clipW / clipH\<bar> \<le> 2 powi (ulp_exponent (clipW / clipH)) / 2"
      by (rule e3)
    show "fit_height f = containerHeight \<or> fit_height f \<le> fl_add containerHeight 0.5"
      by (simp add: fit)
  qed
  then show ?thesis
    unfolding Let_def clipW_def [symmetric] clipH_def [symmetric] hdr_def [symmetric]
      ratio_def [symmetric] f_def [symmetric] .
qed

theorem getFittedDimensions_contain_witness:
  "fl_div 1600 800 \<noteq> 0
   \<and> fl_add (fl_div 800 (fl_div 1600 800)) 32 \<le> fl_add 450 0.5
   \<and> fit_width (getFittedDimensions
         (Some \<lparr>item_id = ''1'', startTime = 0, duration = 15, name = ''Demo'',
                 clip_type = Video, clip_text = None, titleStyle = None, source = None,
                 width = Some 1600, height = Some 800\<rparr>) True 800 450) = 800
   \<and> fit_height (getFittedDimensions
         (Some \<lparr>item_id = ''1'', startTime = 0, duration = 15, name = ''Demo'',
                 clip_type = Video, clip_text = None, titleStyle = None, source = None,
                 width = Some 1600, height = Some 800\<rparr>) True 800 450) = 432
   \<and> fit_contentHeight (getFittedDimensions
         (Some \<lparr>item_id = ''1'', startTime = 0, duration = 15, name = ''Demo'',
                 clip_type = Video, clip_text = None, titleStyle = None, source = None,
                 width = Some 1600, height = Some 800\<rparr>) True 800 450) = 400
   \<and> fit_width (getFittedDimensions
         (Some \<lparr>item_id = ''1'', startTime = 0, duration = 15, name = ''Demo'',
                 clip_type = Video, clip_text = None, titleStyle = None, source = None,
                 width = Some 1600, height = Some 800\<rparr>) True 800 450) * 800
     = fit_contentHeight (getFittedDimensions
         (Some \<lparr>item_id = ''1'', startTime = 0, duration = 15, name = ''Demo'',
                 clip_type = Video, clip_text = None, titleStyle = None, source = None,
                 width = Some 1600, height = Some 800\<rparr>) True 800 450) * 1600"
proof -
  let ?clip = "\<lparr>item_id = ''1'', startTime = 0, duration = 15, name = ''Demo'',
                 clip_type = Video, clip_text = None, titleStyle = None, source = None,
                 width = Some 1600, height = Some 800\<rparr>"
  have r: "fl_div 1600 800 = 2"
    unfolding fl_div_def
    by (subst round_double_normal [of 1]) (simp_all add: round_half_even_def Let_def)
  have c: "fl_div 800 2 = 400"
    unfolding fl_div_def
    by (subst round_double_normal [of 8]) (simp_all add: round_half_even_def Let_def)
  have h: "fl_add 400 32 = 432"
    unfolding fl_add_def
    by (subst round_double_normal [of 8]) (simp_all add: round_half_even_def Let_def)
  have t: "fl_add 450 (1 / 2) = 901 / 2"
    unfolding fl_add_def
    by (subst round_double_normal [of 8]) (simp_all add: round_half_even_def Let_def)
  have w: "or_default (width ?clip) 1920 = 1600" "or_default (height ?clip) 1080 = 800"
    by (simp_all add: or_default_def)
  have p: "fl_div 1600 800 \<noteq> 0"
    "fl_add (fl_div 800 (fl_div 1600 800)) 32 \<le> fl_add 450 0.5"
    "fl_div 1600 800 = 1600 / 800 \<and> fl_div 800 (fl_div 1600 800) = 800 / fl_div 1600 800"
    by (simp_all add: r c h t)
  note th = getFittedDimensions_contain [of ?clip True 800 450, unfolded Let_def w if_True,
      rule_format, OF p(1)]
  note wf = th [THEN conjunct1, rule_format, OF p(2)]
  have "fit_width (getFittedDimensions (Some ?clip) True 800 450) = 800"
    using wf by blast
  moreover have "fit_contentHeight (getFittedDimensions (Some ?clip) True 800 450) = 400"
    using wf by (simp add: r c)
  moreover have "fit_height (getFittedDimensions (Some ?clip) True 800 450) = 432"
    using wf by (simp add: r c h)
  moreover have "fit_width (getFittedDimensions (Some ?clip) True 800 450) * 800
     = fit_contentHeight (getFittedDimensions (Some ?clip) True 800 450) * 1600"
    using wf p(3) by blast
  ultimately show ?thesis using p(1,2) by blast
qed

lemma timelineDuration_ge_default: "DEFAULT_DURATION \<le> timelineDuration cs zs"
  by (simp add: timelineDuration_def Let_def DEFAULT_DURATION_def)

lemma timelineDuration_pos: "0 < timelineDuration cs zs"
  using timelineDuration_ge_default [of cs zs] by (simp add: DEFAULT_DURATION_def)

lemma initial_duration: "timelineDuration (clips initialState) (zooms initialState) = 15"
  by (simp add: initialState_def timelineDuration_def DEFAULT_DURATION_def)

lemma animate_timeline [simp]:
  "clips (animate time st) = clips st" "zooms (animate time st) = zooms st"
  by (simp_all add: animate_def Let_def split: option.split)

lemma syncPlayingRef_fields [simp]:
  "clips (syncPlayingRef st) = clips st" "zooms (syncPlayingRef st) = zooms st"
  "currentTime (syncPlayingRef st) = currentTime st"
  by (simp_all add: syncPlayingRef_def)

lemma animate_currentTime:
  "currentTime (animate time st) = currentTime st
   \<or> currentTime (animate time st) < timelineDuration (clips st) (zooms st)"
  using timelineDuration_pos [of "clips st" "zooms st"]
  by (simp add: animate_def Let_def split: option.split)

lemma runFrames_bounded:
  "currentTime st \<le> timelineDuration (clips st) (zooms st)
   \<Longrightarrow> currentTime (runFrames frames st) \<le> timelineDuration (clips st) (zooms st)
       \<and> clips (runFrames frames st) = clips st \<and> zooms (runFrames frames st) = zooms st"
proof (induction frames arbitrary: st)
  case Nil
  then show ?case by simp
next
  case (Cons time later)
  let ?st = "syncPlayingRef (animate time st)"
  have "currentTime ?st \<le> timelineDuration (clips ?st) (zooms ?st)"
    using animate_currentTime [of time st] Cons.prems by auto
  from Cons.IH [OF this] show ?case by simp
qed

text \<open>
  C9.  In a call of the animation callback that advances the clock (playback is on and
  a previous frame time \<open>p\<close> is known), if the advanced time
  \<open>currentTime + (time - p) / 1000\<close> reaches or exceeds the derived timeline duration,
  then playback stops (\<open>isPlaying\<close> becomes false), an existing export recorder is
  inactive afterwards (it is stopped unless it was inactive already) and the current
  time is reset to 0; otherwise the current time becomes the advanced time and playback
  and recorder are left alone.  Either way the time written is strictly below the
  timeline duration.  Every call of the callback leaves the current time as it was or
  writes a time below the timeline duration, so over any sequence of frames a playhead
  that starts within the timeline never exceeds the timeline duration.
\<close>

theorem animate_end_of_timeline:
  "(isPlayingRef st \<and> previousTimeRef st = Some p \<longrightarrow>
      (currentTime st + (time - p) / 1000 \<ge> timelineDuration (clips st) (zooms st) \<longrightarrow>
         \<not> isPlaying (animate time st)
         \<and> currentTime (animate time st) = 0
         \<and> (exportRecorderRef st = None \<longrightarrow> exportRecorderRef (animate time st) = None)
         \<and> (exportRecorderRef st \<noteq> None \<longrightarrow>
              exportRecorderRef (animate time st) = Some Inactive))
    \<and> (currentTime st + (time - p) / 1000 < timelineDuration (clips st) (zooms st) \<longrightarrow>
         currentTime (animate time st) = currentTime st + (time - p) / 1000
         \<and> isPlaying (animate time st) = isPlaying st
         \<and> exportRecorderRef (animate time st) = exportRecorderRef st)
    \<and> currentTime (animate time st) < timelineDuration (clips st) (zooms st))
   \<and> (currentTime (animate time st) = currentTime st
       \<or> currentTime (animate time st) < timelineDuration (clips st) (zooms st))
   \<and> (currentTime st \<le> timelineDuration (clips st) (zooms st) \<longrightarrow>
        currentTime (runFrames frames st) \<le> timelineDuration (clips st) (zooms st))"
proof (intro conjI impI)
  assume a: "isPlayingRef st \<and> previousTimeRef st = Some p"
  show "currentTime (animate time st) < timelineDuration (clips st) (zooms st)"
    using a timelineDuration_pos [of "clips st" "zooms st"]
    by (simp add: animate_def Let_def)
  {
    assume b: "currentTime st + (time - p) / 1000 \<ge> timelineDuration (clips st) (zooms st)"
    show "\<not> isPlaying (animate time st)" using a b by (simp add: animate_def Let_def)
    show "currentTime (animate time st) = 0" using a b by (simp add: animate_def Let_def)
    show "exportRecorderRef (animate time st) = None" if "exportRecorderRef st = None"
      using a b that by (simp add: animate_def Let_def stopExportRecorder_def)
    show "exportRecorderRef (animate time st) = Some Inactive" if "exportRecorderRef st \<noteq> None"
      using a b that by (auto simp add: animate_def Let_def stopExportRecorder_def)
  }
  {
    assume b: "currentTime st + (time - p) / 1000 < timelineDuration (clips st) (zooms st)"
    show "currentTime (animate time st) = currentTime st + (time - p) / 1000"
      using a b by (simp add: animate_def Let_def)
    show "isPlaying (animate time st) = isPlaying st"
      using a b by (simp add: animate_def Let_def)
    show "exportRecorderRef (animate time st) = exportRecorderRef st"
      using a b by (simp add: animate_def Let_def)
  }
next
  show "currentTime (animate time st) = currentTime st
       \<or> currentTime (animate time st) < timelineDuration (clips st) (zooms st)"
    by (rule animate_currentTime)
next
  assume "currentTime st \<le> timelineDuration (clips st) (zooms st)"
  from runFrames_bounded [OF this]
  show "currentTime (runFrames frames st) \<le> timelineDuration (clips st) (zooms st)" by simp
qed

theorem animate_end_of_timeline_witness:
  "timelineDuration (clips initialState) (zooms initialState) = 15
   \<and> 14.99 + (1020 - 1000) / 1000 \<ge> (15 :: real)
   \<and> \<not> isPlaying (animate 1020 (initialState\<lparr>isPlaying := True, isPlayingRef := True,
          previousTimeRef := Some 1000, currentTime := 14.99,
          exportRecorderRef := Some Recording\<rparr>))
   \<and> currentTime (animate 1020 (initialState\<lparr>isPlaying := True, isPlayingRef := True,
          previousTimeRef := Some 1000, currentTime := 14.99,
          exportRecorderRef := Some Recording\<rparr>)) = 0
   \<and> exportRecorderRef (animate 1020 (initialState\<lparr>isPlaying := True, isPlayingRef := True,
          previousTimeRef := Some 1000, currentTime := 14.99,
          exportRecorderRef := Some Recording\<rparr>)) = Some Inactive"
  using animate_end_of_timeline [of "initialState\<lparr>isPlaying := True, isPlayingRef := True,
          previousTimeRef := Some 1000, currentTime := 14.99,
          exportRecorderRef := Some Recording\<rparr>" 1000 1020 "[]"]
        initial_duration
  by simp

text \<open>
  C10.  A pointer sample that arrives while the window bounds are known and neither
  bound dimension is 0 is appended with \<open>x\<close> and \<open>y\<close> normalized by the window
  bounds and clamped to \<open>[0,1]\<close>, and with the time since capture start in seconds.  A
  sample whose normalized coordinate is not a finite number (a bound dimension of 0)
  is dropped, as is every sample while the bounds are unknown.  With a clock that does
  not run backwards (\<open>captureStart \<le> now\<close>, as \<^verbatim>\<open>performance.now()\<close> guarantees), the
  collection keeps the invariant that every stored sample has \<open>x\<close> and \<open>y\<close> in \<open>[0,1]\<close>
  and a nonnegative time.
\<close>

theorem onMousePosition_normalized:
  "(bounds = Some b \<and> bounds_width b \<noteq> 0 \<and> bounds_height b \<noteq> 0 \<longrightarrow>
      onMousePosition bounds captureStart now pos samples
        = samples @ [\<lparr>sample_x = max 0 (min 1 ((mouse_x pos - bounds_x b) / bounds_width b)),
                      sample_y = max 0 (min 1 ((mouse_y pos - bounds_y b) / bounds_height b)),
                      sample_time = (now - captureStart) / 1000\<rparr>])
   \<and> (bounds = Some b \<and> (bounds_width b = 0 \<or> bounds_height b = 0) \<longrightarrow>
      onMousePosition bounds captureStart now pos samples = samples)
   \<and> (bounds = None \<longrightarrow> onMousePosition bounds captureStart now pos samples = samples)
   \<and> (captureStart \<le> now
        \<and> (\<forall>s \<in> set samples. 0 \<le> sample_x s \<and> sample_x s \<le> 1 \<and> 0 \<le> sample_y s
               \<and> sample_y s \<le> 1 \<and> 0 \<le> sample_time s) \<longrightarrow>
       (\<forall>s \<in> set (onMousePosition bounds captureStart now pos samples).
           0 \<le> sample_x s \<and> sample_x s \<le> 1 \<and> 0 \<le> sample_y s
               \<and> sample_y s \<le> 1 \<and> 0 \<le> sample_time s))"
  by (auto simp add: onMousePosition_def finite_quotient_def Let_def split: option.splits)

theorem onMousePosition_normalized_witness:
  "onMousePosition
      (Some \<lparr>bounds_x = 100, bounds_y = 50, bounds_width = 800, bounds_height = 600\<rparr>)
      5000 7000 \<lparr>mouse_x = 300, mouse_y = 20\<rparr> []
     = [\<lparr>sample_x = 1 / 4, sample_y = 0, sample_time = 2\<rparr>]
   \<and> (5000 :: real) \<le> 7000
   \<and> onMousePosition
      (Some \<lparr>bounds_x = 100, bounds_y = 50, bounds_width = 0, bounds_height = 600\<rparr>)
      5000 7000 \<lparr>mouse_x = 300, mouse_y = 20\<rparr> [] = []"
proof -
  have a: "onMousePosition
      (Some \<lparr>bounds_x = 100, bounds_y = 50, bounds_width = 800, bounds_height = 600\<rparr>)
      5000 7000 \<lparr>mouse_x = 300, mouse_y = 20\<rparr> []
     = [\<lparr>sample_x = 1 / 4, sample_y = 0, sample_time = 2\<rparr>]"
    using onMousePosition_normalized
      [of "Some \<lparr>bounds_x = 100, bounds_y = 50, bounds_width = 800, bounds_height = 600\<rparr>"
          "\<lparr>bounds_x = 100, bounds_y = 50, bounds_width = 800, bounds_height = 600\<rparr>"
          5000 7000 "\<lparr>mouse_x = 300, mouse_y = 20\<rparr>" "[]", THEN conjunct1]
    by simp
  have b: "onMousePosition
      (Some \<lparr>bounds_x = 100, bounds_y = 50, bounds_width = 0, bounds_height = 600\<rparr>)
      5000 7000 \<lparr>mouse_x = 300, mouse_y = 20\<rparr> [] = []"
    using onMousePosition_normalized
      [of "Some \<lparr>bounds_x = 100, bounds_y = 50, bounds_width = 0, bounds_height = 600\<rparr>"
          "\<lparr>bounds_x = 100, bounds_y = 50, bounds_width = 0, bounds_height = 600\<rparr>"
          5000 7000 "\<lparr>mouse_x = 300, mouse_y = 20\<rparr>" "[]", THEN conjunct2, THEN conjunct1]
    by simp
  from a b show ?thesis by simp
qed




text \<open>
  C4, as stated, fails: nothing restores the timeline when a drag is toggled off.  A
  zoom at 2 seconds is pressed in move mode, the pointer moves 80 pixels to the right
  (one second at 80 pixels per second), and the zoom is pressed again in move mode: the
  drag state is null, and the zoom starts at 3 seconds, not at the 2 seconds of before
  the drag.
\<close>

theorem toggle_cancel_counterexample:
  "dragState (onZoomInteraction 176 ''z1'' Move 2 3 zoomExampleState)
     = Some (DragItem \<lparr>drag_type = ZoomTarget, drag_id = ''z1'', mode = Move,
                        startX = 160, initialStart = 2, initialDuration = 3\<rparr>)
   \<and> dragState (onZoomInteraction 256 ''z1'' Move 3 3
        (handleMouseMove 256 (onZoomInteraction 176 ''z1'' Move 2 3 zoomExampleState))) = None
   \<and> map startTime (zooms zoomExampleState) = [2]
   \<and> map startTime (zooms (onZoomInteraction 256 ''z1'' Move 3 3
        (handleMouseMove 256 (onZoomInteraction 176 ''z1'' Move 2 3 zoomExampleState)))) = [3]"
  by (simp add: onZoomInteraction_def handleMouseMove_def zoomExampleState_def initialState_def
        toggleDrag_def contentX_def applyDrag_def Let_def)

text \<open>
  C4, amended.  If a drag of a clip or zoom is in progress on a mounted timeline and a
  pointer-down arrives on the same target id in the same mode, the drag state returns
  to Idle (null) and that pointer-down applies no delta: zooms and clips stay as the
  last pointer-move of the drag left them, so the deltas applied during the drag are
  retained.
\<close>

theorem toggle_cancel_keeps_last_mutation:
  "dragState st = Some (DragItem d) \<and> timelineRef st = Some el \<longrightarrow>
     (drag_type d = ZoomTarget \<longrightarrow>
        dragState (onZoomInteraction clientX (drag_id d) (mode d) start dur st) = None
        \<and> zooms (onZoomInteraction clientX (drag_id d) (mode d) start dur st) = zooms st
        \<and> clips (onZoomInteraction clientX (drag_id d) (mode d) start dur st) = clips st
        \<and> dragState (onZoomInteraction clientX (drag_id d) (mode d) start dur
                        (handleMouseMove clientX' st)) = None
        \<and> zooms (onZoomInteraction clientX (drag_id d) (mode d) start dur
                        (handleMouseMove clientX' st)) = zooms (handleMouseMove clientX' st))
   \<and> (drag_type d = ClipTarget \<longrightarrow>
        dragState (onClipInteraction clientX (drag_id d) (mode d) start dur st) = None
        \<and> zooms (onClipInteraction clientX (drag_id d) (mode d) start dur st) = zooms st
        \<and> clips (onClipInteraction clientX (drag_id d) (mode d) start dur st) = clips st
        \<and> dragState (onClipInteraction clientX (drag_id d) (mode d) start dur
                        (handleMouseMove clientX' st)) = None
        \<and> clips (onClipInteraction clientX (drag_id d) (mode d) start dur
                        (handleMouseMove clientX' st)) = clips (handleMouseMove clientX' st))"
  by (simp add: onZoomInteraction_def onClipInteraction_def toggleDrag_def handleMouseMove_def
        Let_def)

theorem toggle_cancel_keeps_last_mutation_witness:
  "dragState (handleMouseMove 256 (onZoomInteraction 176 ''z1'' Move 2 3 zoomExampleState))
     = Some (DragItem \<lparr>drag_type = ZoomTarget, drag_id = ''z1'', mode = Move,
                        startX = 160, initialStart = 2, initialDuration = 3\<rparr>)
   \<and> dragState (onZoomInteraction 256 ''z1'' Move 3 3
        (handleMouseMove 256 (onZoomInteraction 176 ''z1'' Move 2 3 zoomExampleState))) = None
   \<and> zooms (onZoomInteraction 256 ''z1'' Move 3 3
        (handleMouseMove 256 (onZoomInteraction 176 ''z1'' Move 2 3 zoomExampleState)))
     = zooms (handleMouseMove 256 (onZoomInteraction 176 ''z1'' Move 2 3 zoomExampleState))"
proof -
  let ?st = "handleMouseMove 256 (onZoomInteraction 176 ''z1'' Move 2 3 zoomExampleState)"
  let ?d = "\<lparr>drag_type = ZoomTarget, drag_id = ''z1'', mode = Move,
             startX = 160, initialStart = 2, initialDuration = 3\<rparr>"
  let ?el = "\<lparr>rect_left = 0, scrollLeft = 0\<rparr>"
  have h: "dragState ?st = Some (DragItem ?d) \<and> timelineRef ?st = Some ?el"
    by (simp add: onZoomInteraction_def handleMouseMove_def zoomExampleState_def
          initialState_def toggleDrag_def contentX_def Let_def)
  from toggle_cancel_keeps_last_mutation [of ?st ?d ?el 256 3 3 0, rule_format, OF h,
        THEN conjunct1]
  have "dragState (onZoomInteraction 256 ''z1'' Move 3 3 ?st) = None
        \<and> zooms (onZoomInteraction 256 ''z1'' Move 3 3 ?st) = zooms ?st"
    by simp
  with h show ?thesis by simp
qed

text \<open>
  C5, as stated, fails: the mouse-up handler resets the drag state only for a playhead
  drag.  After a zoom is pressed in move mode and the pointer has moved, releasing the
  button leaves the zoom drag active.
\<close>

theorem handleMouseUp_counterexample:
  "dragState (handleMouseUp
       (handleMouseMove 256 (onZoomInteraction 176 ''z1'' Move 2 3 zoomExampleState)))
     = Some (DragItem \<lparr>drag_type = ZoomTarget, drag_id = ''z1'', mode = Move,
                        startX = 160, initialStart = 2, initialDuration = 3\<rparr>)"
  by (simp add: handleMouseUp_def onZoomInteraction_def handleMouseMove_def
        zoomExampleState_def initialState_def toggleDrag_def contentX_def Let_def)

text \<open>
  C5, amended.  Releasing the pointer button while a playhead drag is active returns
  the interaction state machine to Idle (the drag state becomes null) and ends the
  scrub.  Releasing it while a clip or zoom drag is active changes nothing: the last
  applied mutation stays in the timeline, and the drag state stays non-null until a
  pointer-down toggles the drag off or a pointer-down on the track background cancels
  it.  A release never changes zooms or clips.
\<close>

theorem handleMouseUp_playhead_only:
  "(dragState st = Some DragPlayhead \<longrightarrow> handleMouseUp st = st\<lparr>dragState := None\<rparr>)
   \<and> (dragState st = Some (DragItem d) \<longrightarrow> handleMouseUp st = st)
   \<and> zooms (handleMouseUp st) = zooms st
   \<and> clips (handleMouseUp st) = clips st
   \<and> (dragState st = Some (DragItem d) \<and> timelineRef st = Some el \<longrightarrow>
        dragState (handleScrubStart clientX st) = None
        \<and> zooms (handleScrubStart clientX st) = zooms st
        \<and> clips (handleScrubStart clientX st) = clips st)"
  by (simp add: handleMouseUp_def handleScrubStart_def split: option.split DragState.split)

theorem handleMouseUp_playhead_only_witness:
  "dragState (handleScrubStart 96 zoomExampleState) = Some DragPlayhead
   \<and> currentTime (handleScrubStart 96 zoomExampleState) = 1
   \<and> handleMouseUp (handleScrubStart 96 zoomExampleState)
      = (handleScrubStart 96 zoomExampleState)\<lparr>dragState := None\<rparr>"
proof -
  have h: "dragState (handleScrubStart 96 zoomExampleState) = Some DragPlayhead"
    by (simp add: handleScrubStart_def zoomExampleState_def initialState_def Let_def)
  have t: "currentTime (handleScrubStart 96 zoomExampleState) = 1"
    by (simp add: handleScrubStart_def zoomExampleState_def initialState_def Let_def
          contentX_def timelineDuration_def DEFAULT_DURATION_def)
  from handleMouseUp_playhead_only [of "handleScrubStart 96 zoomExampleState", THEN conjunct1,
        rule_format, OF h] h t
  show ?thesis by simp
qed

lemma find_js_first:
  "\<forall>v \<in> set pre. \<not> p v \<Longrightarrow> p c \<Longrightarrow> find_js p (pre @ c # post) = Some c"
  by (induction pre) auto

lemma findIndex_first:
  "\<forall>v \<in> set pre. \<not> p v \<Longrightarrow> p c \<Longrightarrow> findIndex p (pre @ c # post) = int (length pre)"
  by (induction pre) (auto simp add: Let_def)

lemma splice_replace_one:
  "splice_js (int (length pre)) 1 items (pre @ c # post) = pre @ items @ post"
  by (simp add: splice_js_def Let_def nat_add_distrib)

lemma distinct_insert_after:
  "distinct (xs @ i # ys) \<Longrightarrow> n \<notin> set (xs @ i # ys) \<Longrightarrow> distinct (xs @ [i, n] @ ys)"
  by auto

lemma handleSplit_containing:
  assumes cl: "clips st = pre @ c # post"
    and pre: "\<forall>c' \<in> set pre. \<not> (currentTime st > startTime c'
                                  \<and> currentTime st < fl_add (startTime c') (duration c'))"
    and c: "currentTime st > startTime c" "currentTime st < fl_add (startTime c) (duration c)"
    and ids: "\<forall>c' \<in> set pre. item_id c' \<noteq> item_id c"
  shows "handleSplit newId st =
     (if fl_sub (currentTime st) (startTime c) < round_double 0.1
         \<or> fl_sub (duration c) (fl_sub (currentTime st) (startTime c)) < round_double 0.1
      then st
      else st\<lparr>clips := pre @ [c\<lparr>duration := fl_sub (currentTime st) (startTime c)\<rparr>,
                              \<lparr>item_id = newId, startTime = currentTime st,
                               duration = fl_sub (duration c)
                                            (fl_sub (currentTime st) (startTime c)),
                               name = name c, clip_type = clip_type c,
                               clip_text = clip_text c, titleStyle = titleStyle c,
                               source = source c, width = width c,
                               height = height c\<rparr>] @ post\<rparr>)"
proof -
  have f: "find_js (\<lambda>c. currentTime st > startTime c
                        \<and> currentTime st < fl_add (startTime c) (duration c))
             (pre @ c # post) = Some c"
    using pre c by (intro find_js_first) auto
  have i: "findIndex (\<lambda>c'. item_id c' = item_id c) (pre @ c # post) = int (length pre)"
    using ids by (intro findIndex_first) auto
  show ?thesis
    by (simp add: handleSplit_def cl f i Let_def splice_replace_one)
qed

text \<open>
  C3, as stated, fails twice.  The durations are computed in double precision and need
  not sum exactly to the original: a clip that starts at 0 with the duration 0.9 (the
  double \<open>8106479329266893 / 2^53\<close>), split at 0.2 (the double
  \<open>3602879701896397 / 2^54\<close>), yields the durations 0.2 and 0.7 (the double
  \<open>3152519739159347 / 2^52\<close>), whose exact sum is not the original duration and whose
  double sum is 0.8999999999999999 (the double \<open>2026619832316723 / 2^51\<close>).  And the
  clip to replace is looked up by id: of two clips with the id \<open>d\<close>, the first from 0
  to 1 and the second from 2 to 10, a split at 6 replaces the first, which does not
  contain the split time, and keeps the second whole.
\<close>

theorem handleSplit_counterexample:
  "round_double 0.9 = 8106479329266893 / 9007199254740992
   \<and> round_double 0.2 = 3602879701896397 / 18014398509481984
   \<and> map duration (clips (handleSplit ''n''
        (initialState\<lparr>currentTime := 3602879701896397 / 18014398509481984,
           clips := [\<lparr>item_id = ''1'', startTime = 0,
                      duration = 8106479329266893 / 9007199254740992,
                      name = ''Demo Project'', clip_type = Video, clip_text = None,
                      titleStyle = None, source = None, width = None, height = None\<rparr>]\<rparr>)))
     = [3602879701896397 / 18014398509481984, 3152519739159347 / 4503599627370496]
   \<and> 3602879701896397 / 18014398509481984 + 3152519739159347 / 4503599627370496
       \<noteq> (8106479329266893 / 9007199254740992 :: real)
   \<and> fl_add (3602879701896397 / 18014398509481984) (3152519739159347 / 4503599627370496)
       = 2026619832316723 / 2251799813685248
   \<and> (2026619832316723 / 2251799813685248 :: real) \<noteq> 8106479329266893 / 9007199254740992
   \<and> clips (handleSplit ''n''
        (initialState\<lparr>currentTime := 6,
           clips := [\<lparr>item_id = ''d'', startTime = 0, duration = 1,
                      name = ''first'', clip_type = Video, clip_text = None,
                      titleStyle = None, source = None, width = None, height = None\<rparr>,
                     \<lparr>item_id = ''d'', startTime = 2, duration = 8,
                      name = ''second'', clip_type = Video, clip_text = None,
                      titleStyle = None, source = None, width = None, height = None\<rparr>]\<rparr>))
     = [\<lparr>item_id = ''d'', startTime = 2, duration = 4,
         name = ''second'', clip_type = Video, clip_text = None,
         titleStyle = None, source = None, width = None, height = None\<rparr>,
        \<lparr>item_id = ''n'', startTime = 6, duration = 4,
         name = ''second'', clip_type = Video, clip_text = None,
         titleStyle = None, source = None, width = None, height = None\<rparr>,
        \<lparr>item_id = ''d'', startTime = 2, duration = 8,
         name = ''second'', clip_type = Video, clip_text = None,
         titleStyle = None, source = None, width = None, height = None\<rparr>]"
proof (intro conjI)
  show "round_double 0.9 = 8106479329266893 / 9007199254740992"
    by (subst round_double_normal [of "- 1"]) (simp_all add: round_half_even_def Let_def)
  show "round_double 0.2 = 3602879701896397 / 18014398509481984"
    by (subst round_double_normal [of "- 3"]) (simp_all add: round_half_even_def Let_def)
  have lim: "round_double (1 / 10) = 3602879701896397 / 36028797018963968"
    by (subst round_double_normal [of "- 4"]) (simp_all add: round_half_even_def Let_def)
  have e: "fl_add 0 (8106479329266893 / 9007199254740992)
             = 8106479329266893 / 9007199254740992"
    unfolding fl_add_def
    by (subst round_double_normal [of "- 1"]) (simp_all add: round_half_even_def Let_def)
  have f: "fl_sub (3602879701896397 / 18014398509481984) 0
             = 3602879701896397 / 18014398509481984"
    unfolding fl_sub_def
    by (subst round_double_normal [of "- 3"]) (simp_all add: round_half_even_def Let_def)
  have g: "fl_sub (8106479329266893 / 9007199254740992) (3602879701896397 / 18014398509481984)
             = 3152519739159347 / 4503599627370496"
    unfolding fl_sub_def
    by (subst round_double_normal [of "- 1"]) (simp_all add: round_half_even_def Let_def)
  show "map duration (clips (handleSplit ''n''
        (initialState\<lparr>currentTime := 3602879701896397 / 18014398509481984,
           clips := [\<lparr>item_id = ''1'', startTime = 0,
                      duration = 8106479329266893 / 9007199254740992,
                      name = ''Demo Project'', clip_type = Video, clip_text = None,
                      titleStyle = None, source = None, width = None, height = None\<rparr>]\<rparr>)))
     = [3602879701896397 / 18014398509481984, 3152519739159347 / 4503599627370496]"
    by (simp add: handleSplit_def initialState_def Let_def e f g lim splice_js_def)
  show "3602879701896397 / 18014398509481984 + 3152519739159347 / 4503599627370496
       \<noteq> (8106479329266893 / 9007199254740992 :: real)"
    by simp
  show "fl_add (3602879701896397 / 18014398509481984) (3152519739159347 / 4503599627370496)
       = 2026619832316723 / 2251799813685248"
    unfolding fl_add_def
    by (subst round_double_normal [of "- 1"]) (simp_all add: round_half_even_def Let_def)
  show "(2026619832316723 / 2251799813685248 :: real) \<noteq> 8106479329266893 / 9007199254740992"
    by simp
  have e1: "fl_add 0 1 = 1"
    unfolding fl_add_def
    by (subst round_double_normal [of 0]) (simp_all add: round_half_even_def Let_def)
  have e2: "fl_add 2 8 = 10"
    unfolding fl_add_def
    by (subst round_double_normal [of 3]) (simp_all add: round_half_even_def Let_def)
  have f2: "fl_sub 6 2 = 4"
    unfolding fl_sub_def
    by (subst round_double_normal [of 2]) (simp_all add: round_half_even_def Let_def)
  have g2: "fl_sub 8 4 = 4"
    unfolding fl_sub_def
    by (subst round_double_normal [of 2]) (simp_all add: round_half_even_def Let_def)
  show "clips (handleSplit ''n''
        (initialState\<lparr>currentTime := 6,
           clips := [\<lparr>item_id = ''d'', startTime = 0, duration = 1,
                      name = ''first'', clip_type = Video, clip_text = None,
                      titleStyle = None, source = None, width = None, height = None\<rparr>,
                     \<lparr>item_id = ''d'', startTime = 2, duration = 8,
                      name = ''second'', clip_type = Video, clip_text = None,
                      titleStyle = None, source = None, width = None, height = None\<rparr>]\<rparr>))
     = [\<lparr>item_id = ''d'', startTime = 2, duration = 4,
         name = ''second'', clip_type = Video, clip_text = None,
         titleStyle = None, source = None, width = None, height = None\<rparr>,
        \<lparr>item_id = ''n'', startTime = 6, duration = 4,
         name = ''second'', clip_type = Video, clip_text = None,
         titleStyle = None, source = None, width = None, height = None\<rparr>,
        \<lparr>item_id = ''d'', startTime = 2, duration = 8,
         name = ''second'', clip_type = Video, clip_text = None,
         titleStyle = None, source = None, width = None, height = None\<rparr>]"
    by (simp add: handleSplit_def initialState_def Let_def e1 e2 f2 g2 lim splice_js_def)
qed

text \<open>
  C3, amended.  Clips carry pairwise distinct ids, \<open>t\<close> is the current time, and
  every sum and difference is rounded to double precision.  If no clip's open interval
  \<open>(startTime, startTime + duration)\<close> contains \<open>t\<close>, the split leaves the state
  unchanged.  Otherwise let \<open>c\<close> be the containing clip (the first in list order),
  \<open>firstDuration = t - startTime\<close> and \<open>secondDuration = duration - firstDuration\<close>.
  If one of the two is less than 0.1, the split leaves the state unchanged.  Otherwise
  \<open>c\<close> is replaced in place by the clip \<open>A\<close> (\<open>c\<close> with the duration
  \<open>firstDuration\<close>, so with the id and start of \<open>c\<close>) followed by the clip \<open>B\<close> with
  the id that \<^verbatim>\<open>crypto.randomUUID()\<close> returned, the start \<open>t\<close>, the duration
  \<open>secondDuration\<close> and the type, name, text, title style, source, width and height of
  \<open>c\<close>.  The two durations sum to the duration of \<open>c\<close> up to the rounding of the
  second difference (half a unit in its last place), and \<open>A\<close> ends where \<open>B\<close> starts
  up to the rounding of the first; where both differences are computed without
  rounding error, the durations sum exactly to the original and the combined interval
  is the original interval.  When the new id is not in use, the ids stay pairwise
  distinct.
\<close>

theorem handleSplit_spec:
  "((\<forall>c \<in> set (clips st). \<not> (currentTime st > startTime c
                                \<and> currentTime st < fl_add (startTime c) (duration c))) \<longrightarrow>
      handleSplit newId st = st)
   \<and> (clips st = pre @ c # post
       \<and> (\<forall>c' \<in> set pre. \<not> (currentTime st > startTime c'
                                \<and> currentTime st < fl_add (startTime c') (duration c')))
       \<and> currentTime st > startTime c
       \<and> currentTime st < fl_add (startTime c) (duration c)
       \<and> distinct (map item_id (clips st)) \<longrightarrow>
         ((fl_sub (currentTime st) (startTime c) < round_double 0.1
            \<or> fl_sub (duration c) (fl_sub (currentTime st) (startTime c)) < round_double 0.1)
            \<longrightarrow> handleSplit newId st = st)
       \<and> (fl_sub (currentTime st) (startTime c) \<ge> round_double 0.1
            \<and> fl_sub (duration c) (fl_sub (currentTime st) (startTime c)) \<ge> round_double 0.1
            \<longrightarrow>
            handleSplit newId st =
              st\<lparr>clips := pre @ [c\<lparr>duration := fl_sub (currentTime st) (startTime c)\<rparr>,
                                  \<lparr>item_id = newId, startTime = currentTime st,
                                   duration = fl_sub (duration c)
                                                (fl_sub (currentTime st) (startTime c)),
                                   name = name c, clip_type = clip_type c,
                                   clip_text = clip_text c, titleStyle = titleStyle c,
                                   source = source c, width = width c,
                                   height = height c\<rparr>] @ post\<rparr>
            \<and> item_id (clips (handleSplit newId st) ! length pre) = item_id c
            \<and> item_id (clips (handleSplit newId st) ! Suc (length pre)) = newId
            \<and> startTime (clips (handleSplit newId st) ! length pre) = startTime c
            \<and> startTime (clips (handleSplit newId st) ! Suc (length pre)) = currentTime st
            \<and> \<bar>duration (clips (handleSplit newId st) ! length pre)
                 + duration (clips (handleSplit newId st) ! Suc (length pre)) - duration c\<bar>
                \<le> 2 powi (ulp_exponent
                             (duration c - fl_sub (currentTime st) (startTime c))) / 2
            \<and> \<bar>startTime (clips (handleSplit newId st) ! length pre)
                 + duration (clips (handleSplit newId st) ! length pre)
                 - startTime (clips (handleSplit newId st) ! Suc (length pre))\<bar>
                \<le> 2 powi (ulp_exponent (currentTime st - startTime c)) / 2
            \<and> (fl_sub (currentTime st) (startTime c) = currentTime st - startTime c
                 \<and> fl_sub (duration c) (currentTime st - startTime c)
                     = duration c - (currentTime st - startTime c) \<longrightarrow>
                 duration (clips (handleSplit newId st) ! length pre)
                   + duration (clips (handleSplit newId st) ! Suc (length pre)) = duration c
                 \<and> startTime (clips (handleSplit newId st) ! length pre)
                   + duration (clips (handleSplit newId st) ! length pre)
                   = startTime (clips (handleSplit newId st) ! Suc (length pre))
                 \<and> startTime (clips (handleSplit newId st) ! Suc (length pre))
                   + duration (clips (handleSplit newId st) ! Suc (length pre))
                   = startTime c + duration c)
            \<and> (newId \<notin> set (map item_id (clips st)) \<longrightarrow>
                 distinct (map item_id (clips (handleSplit newId st))))))"
proof (intro conjI impI)
  assume "\<forall>c \<in> set (clips st). \<not> (currentTime st > startTime c
                                \<and> currentTime st < fl_add (startTime c) (duration c))"
  then have "find_js (\<lambda>c. currentTime st > startTime c
                        \<and> currentTime st < fl_add (startTime c) (duration c)) (clips st)
               = None"
    by (simp add: find_js_None)
  then show "handleSplit newId st = st" by (simp add: handleSplit_def)
next
  assume a: "clips st = pre @ c # post
       \<and> (\<forall>c' \<in> set pre. \<not> (currentTime st > startTime c'
                                \<and> currentTime st < fl_add (startTime c') (duration c')))
       \<and> currentTime st > startTime c
       \<and> currentTime st < fl_add (startTime c) (duration c)
       \<and> distinct (map item_id (clips st))"
  define fd where "fd = fl_sub (currentTime st) (startTime c)"
  define sd where "sd = fl_sub (duration c) fd"
  from a have cl: "clips st = pre @ c # post" and "distinct (map item_id (clips st))"
    by blast+
  then have d: "distinct (map item_id (pre @ c # post))" by simp
  have ids: "\<forall>c' \<in> set pre. item_id c' \<noteq> item_id c"
  proof
    fix c' assume "c' \<in> set pre"
    then have "item_id c' \<in> set (map item_id pre)" by simp
    moreover from d have "item_id c \<notin> set (map item_id pre)" by simp
    ultimately show "item_id c' \<noteq> item_id c" by metis
  qed
  note hs = handleSplit_containing [of st pre c post newId, OF _ _ _ _ ids]
  have eq: "handleSplit newId st =
     (if fd < round_double 0.1 \<or> sd < round_double 0.1
      then st
      else st\<lparr>clips := pre @ [c\<lparr>duration := fd\<rparr>,
                              \<lparr>item_id = newId, startTime = currentTime st,
                               duration = sd,
                               name = name c, clip_type = clip_type c,
                               clip_text = clip_text c, titleStyle = titleStyle c,
                               source = source c, width = width c,
                               height = height c\<rparr>] @ post\<rparr>)"
    unfolding fd_def sd_def using a by (intro hs) simp_all
  {
    assume "fl_sub (currentTime st) (startTime c) < round_double 0.1
            \<or> fl_sub (duration c) (fl_sub (currentTime st) (startTime c)) < round_double 0.1"
    then have "fd < round_double 0.1 \<or> sd < round_double 0.1"
      by (simp only: fd_def sd_def)
    then show "handleSplit newId st = st" by (simp only: eq if_True)
  }
  assume b: "fl_sub (currentTime st) (startTime c) \<ge> round_double 0.1
            \<and> fl_sub (duration c) (fl_sub (currentTime st) (startTime c)) \<ge> round_double 0.1"
  then have "\<not> (fd < round_double 0.1 \<or> sd < round_double 0.1)"
    unfolding fd_def sd_def by (simp only: not_less de_Morgan_disj)
  then have r: "handleSplit newId st =
              st\<lparr>clips := pre @ [c\<lparr>duration := fd\<rparr>,
                                  \<lparr>item_id = newId, startTime = currentTime st,
                                   duration = sd,
                                   name = name c, clip_type = clip_type c,
                                   clip_text = clip_text c, titleStyle = titleStyle c,
                                   source = source c, width = width c,
                                   height = height c\<rparr>] @ post\<rparr>"
    by (simp only: eq if_False)
  have A: "clips (handleSplit newId st) ! length pre = c\<lparr>duration := fd\<rparr>"
    by (simp add: r nth_append)
  have B: "clips (handleSplit newId st) ! Suc (length pre)
             = \<lparr>item_id = newId, startTime = currentTime st, duration = sd,
                name = name c, clip_type = clip_type c,
                clip_text = clip_text c, titleStyle = titleStyle c,
                source = source c, width = width c, height = height c\<rparr>"
    by (simp add: r nth_append)
  have e1: "\<bar>fd - (currentTime st - startTime c)\<bar>
              \<le> 2 powi (ulp_exponent (currentTime st - startTime c)) / 2"
    unfolding fd_def fl_sub_def by (rule round_double_error)
  have e2: "\<bar>sd - (duration c - fd)\<bar> \<le> 2 powi (ulp_exponent (duration c - fd)) / 2"
    unfolding sd_def fl_sub_def by (rule round_double_error)
  show "handleSplit newId st =
              st\<lparr>clips := pre @ [c\<lparr>duration := fl_sub (currentTime st) (startTime c)\<rparr>,
                                  \<lparr>item_id = newId, startTime = currentTime st,
                                   duration = fl_sub (duration c)
                                                (fl_sub (currentTime st) (startTime c)),
                                   name = name c, clip_type = clip_type c,
                                   clip_text = clip_text c, titleStyle = titleStyle c,
                                   source = source c, width = width c,
                                   height = height c\<rparr>] @ post\<rparr>"
    using r unfolding fd_def sd_def .
  show "item_id (clips (handleSplit newId st) ! length pre) = item_id c"
    by (simp add: A)
  show "item_id (clips (handleSplit newId st) ! Suc (length pre)) = newId"
    by (simp add: B)
  show "startTime (clips (handleSplit newId st) ! length pre) = startTime c"
    by (simp add: A)
  show "startTime (clips (handleSplit newId st) ! Suc (length pre)) = currentTime st"
    by (simp add: B)
  show "\<bar>duration (clips (handleSplit newId st) ! length pre)
                 + duration (clips (handleSplit newId st) ! Suc (length pre)) - duration c\<bar>
                \<le> 2 powi (ulp_exponent
                             (duration c - fl_sub (currentTime st) (startTime c))) / 2"
  proof -
    have "duration (clips (handleSplit newId st) ! length pre)
                 + duration (clips (handleSplit newId st) ! Suc (length pre)) - duration c
          = sd - (duration c - fd)"
      by (simp add: A B)
    with e2 show ?thesis by (simp only: fd_def)
  qed
  show "\<bar>startTime (clips (handleSplit newId st) ! length pre)
                 + duration (clips (handleSplit newId st) ! length pre)
                 - startTime (clips (handleSplit newId st) ! Suc (length pre))\<bar>
                \<le> 2 powi (ulp_exponent (currentTime st - startTime c)) / 2"
  proof -
    have "startTime (clips (handleSplit newId st) ! length pre)
                 + duration (clips (handleSplit newId st) ! length pre)
                 - startTime (clips (handleSplit newId st) ! Suc (length pre))
          = fd - (currentTime st - startTime c)"
      by (simp add: A B)
    with e1 show ?thesis by (simp only:)
  qed
  {
    assume x: "fl_sub (currentTime st) (startTime c) = currentTime st - startTime c
                 \<and> fl_sub (duration c) (currentTime st - startTime c)
                     = duration c - (currentTime st - startTime c)"
    then have fx: "fd = currentTime st - startTime c" by (simp only: fd_def)
    from x have sx: "sd = duration c - (currentTime st - startTime c)"
      by (simp only: sd_def fx)
    show "duration (clips (handleSplit newId st) ! length pre)
                   + duration (clips (handleSplit newId st) ! Suc (length pre)) = duration c"
      by (simp add: A B fx sx)
    show "startTime (clips (handleSplit newId st) ! length pre)
                   + duration (clips (handleSplit newId st) ! length pre)
                   = startTime (clips (handleSplit newId st) ! Suc (length pre))"
      by (simp add: A B fx sx)
    show "startTime (clips (handleSplit newId st) ! Suc (length pre))
                   + duration (clips (handleSplit newId st) ! Suc (length pre))
                   = startTime c + duration c"
      by (simp add: A B fx sx)
  }
  show "distinct (map item_id (clips (handleSplit newId st)))"
    if n: "newId \<notin> set (map item_id (clips st))"
  proof -
    have "newId \<notin> set (map item_id pre @ item_id c # map item_id post)"
      using n cl by simp
    moreover have "distinct (map item_id pre @ item_id c # map item_id post)"
      using d by simp
    ultimately have "distinct (map item_id pre @ [item_id c, newId] @ map item_id post)"
      by (rule distinct_insert_after [rotated])
    then show ?thesis by (simp add: r)
  qed
qed

theorem handleSplit_spec_witness:
  "fl_sub 4 0 = 4 - 0 \<and> fl_sub 10 (4 - 0) = 10 - (4 - 0)
   \<and> clips (handleSplit ''n''
      (initialState\<lparr>currentTime := 4,
         clips := [\<lparr>item_id = ''1'', startTime = 0, duration = 10,
                    name = ''Demo Project'', clip_type = Video, clip_text = None,
                    titleStyle = None, source = None, width = None, height = None\<rparr>]\<rparr>))
   = [\<lparr>item_id = ''1'', startTime = 0, duration = 4,
        name = ''Demo Project'', clip_type = Video, clip_text = None,
        titleStyle = None, source = None, width = None, height = None\<rparr>,
      \<lparr>item_id = ''n'', startTime = 4, duration = 6,
        name = ''Demo Project'', clip_type = Video, clip_text = None,
        titleStyle = None, source = None, width = None, height = None\<rparr>]"
proof -
  let ?c = "\<lparr>item_id = ''1'', startTime = 0, duration = 10,
             name = ''Demo Project'', clip_type = Video, clip_text = None,
             titleStyle = None, source = None, width = None, height = None\<rparr>"
  let ?st = "initialState\<lparr>currentTime := 4, clips := [?c]\<rparr>"
  have lim: "round_double (1 / 10) = 3602879701896397 / 36028797018963968"
    by (subst round_double_normal [of "- 4"]) (simp_all add: round_half_even_def Let_def)
  have e: "fl_add 0 10 = 10"
    unfolding fl_add_def
    by (subst round_double_normal [of 3]) (simp_all add: round_half_even_def Let_def)
  have f: "fl_sub 4 0 = 4"
    unfolding fl_sub_def
    by (subst round_double_normal [of 2]) (simp_all add: round_half_even_def Let_def)
  have g: "fl_sub 10 4 = 6"
    unfolding fl_sub_def
    by (subst round_double_normal [of 2]) (simp_all add: round_half_even_def Let_def)
  have h: "clips ?st = [] @ ?c # []
       \<and> (\<forall>c' \<in> set []. \<not> (currentTime ?st > startTime c'
                                \<and> currentTime ?st < fl_add (startTime c') (duration c')))
       \<and> currentTime ?st > startTime ?c
       \<and> currentTime ?st < fl_add (startTime ?c) (duration ?c)
       \<and> distinct (map item_id (clips ?st))"
    by (simp add: initialState_def e)
  have k: "fl_sub (currentTime ?st) (startTime ?c) \<ge> round_double 0.1
            \<and> fl_sub (duration ?c) (fl_sub (currentTime ?st) (startTime ?c))
                \<ge> round_double 0.1"
    by (simp add: initialState_def f g lim)
  from handleSplit_spec [of ?st "''n''" "[]" ?c "[]", THEN conjunct2, rule_format, OF h,
        THEN conjunct2, rule_format, OF k, THEN conjunct1]
  have "clips (handleSplit ''n'' ?st)
          = [\<lparr>item_id = ''1'', startTime = 0, duration = 4,
               name = ''Demo Project'', clip_type = Video, clip_text = None,
               titleStyle = None, source = None, width = None, height = None\<rparr>,
             \<lparr>item_id = ''n'', startTime = 4, duration = 6,
               name = ''Demo Project'', clip_type = Video, clip_text = None,
               titleStyle = None, source = None, width = None, height = None\<rparr>]"
    by (simp add: initialState_def f g)
  then show ?thesis by (simp add: f g)
qed

end
